theory Spec2Isabelle
  imports Main
begin

section \<open>The environment of services/listen_dnsport.c\<close>

text \<open>
  The file talks to the kernel (socket, setsockopt, bind, fcntl, listen, close), to the
  C library (getaddrinfo, malloc, free) and to the logger. The model threads a
  \<open>world\<close> through every call: the table of open descriptors, the number of live
  malloc blocks, the log, the list of system calls made so far, and the decisions of the
  environment: each fallible call takes the next entry of \<open>decisions\<close> (\<open>True\<close>: the
  call fails); an exhausted list lets every call succeed.
\<close>

datatype family = AF_UNSPEC | AF_INET | AF_INET6

datatype socktype = SOCK_UNSPEC | SOCK_DGRAM | SOCK_STREAM

datatype sockopt = SO_REUSEADDR | IPV6_V6ONLY | IPV6_USE_MIN_MTU
  | IPV6_RECVPKTINFO | IPV6_PKTINFO | IP_RECVDSTADDR | IP_PKTINFO

datatype fflag = O_NONBLOCK | O_OTHER nat

datatype ai_flag = AI_PASSIVE | AI_NUMERICHOST

datatype loglevel = LOG_ERR | LOG_WARN

record sockaddr =
  sa_family :: family
  sa_host :: string
  sa_port :: string

record addrinfo =
  ai_flags :: "ai_flag set"
  ai_family :: family
  ai_socktype :: socktype
  ai_addr :: "sockaddr option"

record sock =
  s_family :: family
  s_type :: socktype
  s_opts :: "sockopt \<Rightarrow> int option"
  s_bound :: "sockaddr option"
  s_flags :: "fflag set"
  s_backlog :: "nat option"

datatype syscall = Socket family socktype
  | Setsockopt int sockopt int
  | Bind int "sockaddr option"
  | Fcntl_getfl int
  | Fcntl_setfl int "fflag set"
  | Listen int nat
  | Close int

record world =
  decisions :: "bool list"
  fds :: "int \<Rightarrow> sock option"
  next_fd :: nat
  mallocs :: int
  buffers :: int
  commpoints :: int
  errlog :: "(loglevel \<times> string) list"
  trace :: "syscall list"

text \<open>The compile-time switches of the file: which option macros the platform defines.\<close>

record platform =
  have_INET6 :: bool
  have_IPV6_V6ONLY :: bool
  have_IPV6_USE_MIN_MTU :: bool
  have_SO_REUSEADDR :: bool
  have_IPV6_RECVPKTINFO :: bool
  have_IPV6_PKTINFO :: bool
  have_IP_RECVDSTADDR :: bool
  have_IP_PKTINFO :: bool

definition fault :: "world \<Rightarrow> bool \<times> world" where
  "fault w = (case decisions w of [] \<Rightarrow> (False, w) | b # bs \<Rightarrow> (b, w\<lparr>decisions := bs\<rparr>))"

definition called :: "syscall \<Rightarrow> world \<Rightarrow> world" where
  "called c w = w\<lparr>trace := trace w @ [c]\<rparr>"

definition log_err :: "string \<Rightarrow> world \<Rightarrow> world" where
  "log_err msg w = w\<lparr>errlog := errlog w @ [(LOG_ERR, msg)]\<rparr>"

definition log_warn :: "string \<Rightarrow> world \<Rightarrow> world" where
  "log_warn msg w = w\<lparr>errlog := errlog w @ [(LOG_WARN, msg)]\<rparr>"

definition new_sock :: "family \<Rightarrow> socktype \<Rightarrow> sock" where
  "new_sock fam ty = \<lparr>s_family = fam, s_type = ty, s_opts = (\<lambda>_. None), s_bound = None,
     s_flags = {}, s_backlog = None\<rparr>"

text \<open>socket(2): -1 on failure, else a descriptor that was not in use.\<close>

definition sys_socket :: "family \<Rightarrow> socktype \<Rightarrow> world \<Rightarrow> int \<times> world" where
  "sys_socket fam ty w0 =
     (let (f, w) = fault (called (Socket fam ty) w0) in
      if f then (-1, w)
      else (int (next_fd w),
            w\<lparr>fds := (fds w)(int (next_fd w) \<mapsto> new_sock fam ty), next_fd := Suc (next_fd w)\<rparr>))"

text \<open>setsockopt(2): -1 on failure or on a descriptor that is not open, else 0.\<close>

definition sys_setsockopt :: "int \<Rightarrow> sockopt \<Rightarrow> int \<Rightarrow> world \<Rightarrow> int \<times> world" where
  "sys_setsockopt s opt val w0 =
     (let (f, w) = fault (called (Setsockopt s opt val) w0) in
      case fds w s of
        None \<Rightarrow> (-1, w)
      | Some sk \<Rightarrow>
          if f then (-1, w)
          else (0, w\<lparr>fds := (fds w)(s \<mapsto> sk\<lparr>s_opts := (s_opts sk)(opt \<mapsto> val)\<rparr>)\<rparr>))"

text \<open>bind(2): -1 on failure, on a descriptor that is not open or on a null address.\<close>

definition sys_bind :: "int \<Rightarrow> sockaddr option \<Rightarrow> world \<Rightarrow> int \<times> world" where
  "sys_bind s addr w0 =
     (let (f, w) = fault (called (Bind s addr) w0) in
      case fds w s of
        None \<Rightarrow> (-1, w)
      | Some sk \<Rightarrow>
          if f \<or> addr = None then (-1, w)
          else (0, w\<lparr>fds := (fds w)(s \<mapsto> sk\<lparr>s_bound := addr\<rparr>)\<rparr>))"

text \<open>fcntl(s, F_GETFL): the file status flags, \<open>None\<close> for the return value -1.\<close>

definition sys_fcntl_getfl :: "int \<Rightarrow> world \<Rightarrow> fflag set option \<times> world" where
  "sys_fcntl_getfl s w0 =
     (let (f, w) = fault (called (Fcntl_getfl s) w0) in
      case fds w s of
        None \<Rightarrow> (None, w)
      | Some sk \<Rightarrow> if f then (None, w) else (Some (s_flags sk), w))"

text \<open>fcntl(s, F_SETFL, flag): -1 on failure, else 0.\<close>

definition sys_fcntl_setfl :: "int \<Rightarrow> fflag set \<Rightarrow> world \<Rightarrow> int \<times> world" where
  "sys_fcntl_setfl s flag w0 =
     (let (f, w) = fault (called (Fcntl_setfl s flag) w0) in
      case fds w s of
        None \<Rightarrow> (-1, w)
      | Some sk \<Rightarrow>
          if f then (-1, w)
          else (0, w\<lparr>fds := (fds w)(s \<mapsto> sk\<lparr>s_flags := flag\<rparr>)\<rparr>))"

text \<open>listen(2): -1 on failure, else 0.\<close>

definition sys_listen :: "int \<Rightarrow> nat \<Rightarrow> world \<Rightarrow> int \<times> world" where
  "sys_listen s backlog w0 =
     (let (f, w) = fault (called (Listen s backlog) w0) in
      case fds w s of
        None \<Rightarrow> (-1, w)
      | Some sk \<Rightarrow>
          if f then (-1, w)
          else (0, w\<lparr>fds := (fds w)(s \<mapsto> sk\<lparr>s_backlog := Some backlog\<rparr>)\<rparr>))"

text \<open>close(2); the file never looks at its result.\<close>

definition sys_close :: "int \<Rightarrow> world \<Rightarrow> world" where
  "sys_close s w0 = (let w = called (Close s) w0 in w\<lparr>fds := (fds w)(s := None)\<rparr>)"

text \<open>
  malloc and free of one block: only the number of live blocks is kept, as an integer, so
  that a free too many shows as a negative count.
\<close>

definition malloc :: "world \<Rightarrow> bool \<times> world" where
  "malloc w0 = (let (f, w) = fault w0 in
     if f then (False, w) else (True, w\<lparr>mallocs := mallocs w + 1\<rparr>))"

definition free :: "world \<Rightarrow> world" where
  "free w = w\<lparr>mallocs := mallocs w - 1\<rparr>"

text \<open>
  getaddrinfo with the hints the file passes (the family is always set by the caller):
  on success one result of the hinted family and socket type for the given node and
  service; \<open>None\<close> stands for a non-zero return or a null result. The address keeps
  the service string as it was given: it stands for the 16-bit port of the real address
  only when it is the numeral of a port in 0..65535.
\<close>

definition getaddrinfo :: "string \<Rightarrow> string \<Rightarrow> addrinfo \<Rightarrow> world \<Rightarrow> addrinfo option \<times> world" where
  "getaddrinfo node service hints w0 =
     (let (f, w) = fault w0 in
      if f then (None, w)
      else (Some \<lparr>ai_flags = ai_flags hints, ai_family = ai_family hints,
                  ai_socktype = ai_socktype hints,
                  ai_addr = Some \<lparr>sa_family = ai_family hints, sa_host = node,
                                  sa_port = service\<rparr>\<rparr>, w))"

text \<open>
  Modelled from the spec: \<open>fd_set_nonblock\<close> (util/net_help.c, declared in
  util/net_help.h, not under src/) "sets the socket non-blocking" and reports failure
  with 0; it reads the status flags, adds \<open>O_NONBLOCK\<close> and writes them back, as the
  TCP factory of this file does inline.
\<close>

definition fd_set_nonblock :: "int \<Rightarrow> world \<Rightarrow> int \<times> world" where
  "fd_set_nonblock s w0 =
     (let (g, w1) = sys_fcntl_getfl s w0;
          (flag, w2) = (case g of None \<Rightarrow> ({}, log_err ''can't fcntl F_GETFL: %s'' w1)
                                | Some fl \<Rightarrow> (fl, w1));
          (r, w3) = sys_fcntl_setfl s (insert O_NONBLOCK flag) w2 in
      if r = -1 then (0, log_err ''can't fcntl F_SETFL: %s'' w3) else (1, w3))"

section \<open>The socket factory\<close>

definition TCP_BACKLOG :: nat where
  "TCP_BACKLOG = 5"

text \<open>
  \<open>create_udp_sock\<close>, lines 88-138. \<open>verbose_print_addr\<close> only prints at a debug
  verbosity and is left out. No failure path closes \<open>s\<close>.
\<close>

definition create_udp_sock :: "platform \<Rightarrow> addrinfo \<Rightarrow> int \<Rightarrow> world \<Rightarrow> int \<times> world" where
  "create_udp_sock plat addr v6only w0 =
     (let (s, w1) = sys_socket (ai_family addr) (ai_socktype addr) w0 in
      if s = -1 then (-1, log_err ''can't create socket: %s'' w1)
      else
        let (r1, w2) =
          (if ai_family addr = AF_INET6 \<and> have_IPV6_V6ONLY plat \<and> v6only \<noteq> 0
           then sys_setsockopt s IPV6_V6ONLY (if v6only = 2 then 0 else 1) w1
           else (0, w1)) in
        if r1 < 0 then (-1, log_err ''setsockopt(..., IPV6_V6ONLY, ...) failed: %s'' w2)
        else
          let (r2, w3) =
            (if ai_family addr = AF_INET6 \<and> have_IPV6_USE_MIN_MTU plat
             then sys_setsockopt s IPV6_USE_MIN_MTU 1 w2
             else (0, w2)) in
          if r2 < 0
          then (-1, log_err ''setsockopt(..., IPV6_USE_MIN_MTU, ...) failed: %s'' w3)
          else
            let (r3, w4) = sys_bind s (ai_addr addr) w3 in
            if r3 \<noteq> 0 then (-1, log_err ''can't bind socket: %s'' w4)
            else
              let (r4, w5) = fd_set_nonblock s w4 in
              if r4 = 0 then (-1, w5) else (s, w5))"

text \<open>
  \<open>create_tcp_accept_sock\<close>, lines 146-196. The value written for
  \<open>IPV6_V6ONLY\<close> is always \<open>on = 1\<close>.
\<close>

definition create_tcp_accept_sock :: "platform \<Rightarrow> addrinfo \<Rightarrow> int \<Rightarrow> world \<Rightarrow> int \<times> world" where
  "create_tcp_accept_sock plat addr v6only w0 =
     (let (s, w1) = sys_socket (ai_family addr) (ai_socktype addr) w0 in
      if s = -1 then (-1, log_err ''can't create socket: %s'' w1)
      else
        let (r1, w2) =
          (if have_SO_REUSEADDR plat then sys_setsockopt s SO_REUSEADDR 1 w1 else (0, w1)) in
        if r1 < 0 then (-1, log_err ''setsockopt(.. SO_REUSEADDR ..) failed: %s'' w2)
        else
          let (r2, w3) =
            (if have_IPV6_V6ONLY plat \<and> ai_family addr = AF_INET6 \<and> v6only \<noteq> 0
             then sys_setsockopt s IPV6_V6ONLY 1 w2
             else (0, w2)) in
          if r2 < 0 then (-1, log_err ''setsockopt(..., IPV6_V6ONLY, ...) failed: %s'' w3)
          else
            let (r3, w4) = sys_bind s (ai_addr addr) w3 in
            if r3 \<noteq> 0 then (-1, log_err ''can't bind socket: %s'' w4)
            else
              let (g, w5) = sys_fcntl_getfl s w4;
                  (flag, w6) = (case g of
                      None \<Rightarrow> ({}, log_err ''can't fcntl F_GETFL: %s'' w5)
                    | Some fl \<Rightarrow> (fl, w5));
                  (r4, w7) = sys_fcntl_setfl s (insert O_NONBLOCK flag) w6 in
              if r4 = -1 then (-1, log_err ''can't fcntl F_SETFL: %s'' w7)
              else
                let (r5, w8) = sys_listen s TCP_BACKLOG w7 in
                if r5 = -1 then (-1, log_err ''can't listen: %s'' w8) else (s, w8))"

text \<open>
  \<open>make_sock\<close>, lines 201-219. The write to \<open>hints->ai_socktype\<close> is seen by the
  caller, but every later use of the hints goes through \<open>make_sock\<close> again, which
  overwrites it first; the model keeps the update local. The memory of the getaddrinfo
  result, released by freeaddrinfo on every path, is not counted.
\<close>

definition make_sock ::
  "platform \<Rightarrow> socktype \<Rightarrow> string \<Rightarrow> string \<Rightarrow> addrinfo \<Rightarrow> int \<Rightarrow> world \<Rightarrow> int \<times> world" where
  "make_sock plat stype ifname port hints v6only w0 =
     (let (res, w1) = getaddrinfo ifname port (hints\<lparr>ai_socktype := stype\<rparr>) w0 in
      case res of
        None \<Rightarrow> (-1, log_err ''node %s:%s getaddrinfo: %s %s'' w1)
      | Some a \<Rightarrow>
          if stype = SOCK_DGRAM then create_udp_sock plat a v6only w1
          else create_tcp_accept_sock plat a v6only w1)"

section \<open>The port list\<close>

datatype listen_type = listen_type_udp | listen_type_tcp | listen_type_udpancil

text \<open>A \<open>struct listen_port\<close> without its \<open>next\<close> pointer; the list is a HOL list, head first.\<close>

record listen_port =
  fd :: int
  ftype :: listen_type

text \<open>\<open>port_insert\<close>, lines 228-240: result and the new value of \<open>*list\<close>.\<close>

definition port_insert ::
  "listen_port list \<Rightarrow> int \<Rightarrow> listen_type \<Rightarrow> world \<Rightarrow> int \<times> listen_port list \<times> world" where
  "port_insert list s ft w0 =
     (let (item, w1) = malloc w0 in
      if \<not> item then (0, list, w1)
      else (1, \<lparr>fd = s, ftype = ft\<rparr> # list, w1))"

text \<open>\<open>set_recvpktinfo\<close>, lines 243-291.\<close>

definition set_recvpktinfo :: "platform \<Rightarrow> int \<Rightarrow> family \<Rightarrow> world \<Rightarrow> int \<times> world" where
  "set_recvpktinfo plat s fam w0 =
     (if fam = AF_INET6 then
        (if have_IPV6_RECVPKTINFO plat then
           (let (r, w1) = sys_setsockopt s IPV6_RECVPKTINFO 1 w0 in
            if r < 0
            then (0, log_err ''setsockopt(..., IPV6_RECVPKTINFO, ...) failed: %s'' w1)
            else (1, w1))
         else if have_IPV6_PKTINFO plat then
           (let (r, w1) = sys_setsockopt s IPV6_PKTINFO 1 w0 in
            if r < 0
            then (0, log_err ''setsockopt(..., IPV6_PKTINFO, ...) failed: %s'' w1)
            else (1, w1))
         else (0, log_err ''no IPV6_RECVPKTINFO and no IPV6_PKTINFO option, please disable interface-automatic in config'' w0))
      else if fam = AF_INET then
        (if have_IP_RECVDSTADDR plat then
           (let (r, w1) = sys_setsockopt s IP_RECVDSTADDR 1 w0 in
            if r < 0
            then (0, log_err ''setsockopt(..., IP_RECVDSTADDR, ...) failed: %s'' w1)
            else (1, w1))
         else if have_IP_PKTINFO plat then
           (let (r, w1) = sys_setsockopt s IP_PKTINFO 1 w0 in
            if r < 0
            then (0, log_err ''setsockopt(..., IP_PKTINFO, ...) failed: %s'' w1)
            else (1, w1))
         else (0, log_err ''no IP_RECVDSTADDR or IP_PKTINFO option, please disable interface-automatic in config'' w0))
      else (1, w0))"

text \<open>
  \<open>ports_create_if\<close>, lines 305-342: result and the new value of \<open>*list\<close>. The first
  test returns 0, the function's error value. A failure of \<open>make_sock\<close> or
  \<open>set_recvpktinfo\<close> returns without closing; only a failed \<open>port_insert\<close> closes \<open>s\<close>.
\<close>

definition ports_create_if ::
  "platform \<Rightarrow> string \<Rightarrow> int \<Rightarrow> int \<Rightarrow> int \<Rightarrow> addrinfo \<Rightarrow> string \<Rightarrow> listen_port list \<Rightarrow> world
   \<Rightarrow> int \<times> listen_port list \<times> world" where
  "ports_create_if plat ifname do_auto do_udp do_tcp hints port list w0 =
     (if do_udp = 0 \<and> do_tcp = 0 then (0, list, w0)
      else
        let (ok1 :: int, list1, w1) =
          (if do_auto \<noteq> 0 then
             (let (s, wa) = make_sock plat SOCK_DGRAM ifname port hints 1 w0 in
              if s = -1 then (0, list, wa)
              else
                let (r, wb) = set_recvpktinfo plat s (ai_family hints) wa in
                if r = 0 then (0, list, wb)
                else
                  let (i, l, wc) = port_insert list s listen_type_udpancil wb in
                  if i = 0 then (0, l, sys_close s wc) else (1, l, wc))
           else if do_udp \<noteq> 0 then
             (let (s, wa) = make_sock plat SOCK_DGRAM ifname port hints 1 w0 in
              if s = -1 then (0, list, wa)
              else
                let (i, l, wc) = port_insert list s listen_type_udp wa in
                if i = 0 then (0, l, sys_close s wc) else (1, l, wc))
           else (1, list, w0)) in
        if ok1 = 0 then (0, list1, w1)
        else if do_tcp \<noteq> 0 then
          (let (s, wa) = make_sock plat SOCK_STREAM ifname port hints 1 w1 in
           if s = -1 then (0, list1, wa)
           else
             let (i, l, wc) = port_insert list1 s listen_type_tcp wa in
             if i = 0 then (0, l, sys_close s wc) else (1, l, wc))
        else (1, list1, w1))"

text \<open>\<open>listening_ports_free\<close>, lines 534-544.\<close>

fun listening_ports_free :: "listen_port list \<Rightarrow> world \<Rightarrow> world" where
  "listening_ports_free [] w = w"
| "listening_ports_free (p # nx) w =
     listening_ports_free nx (free (if fd p \<noteq> -1 then sys_close (fd p) w else w))"

section \<open>Building the port set\<close>

text \<open>
  The fields of \<open>struct config_file\<close> (util/config_file.h) that the file reads. The C
  structure keeps the interfaces as an array \<open>ifs\<close> of \<open>num_ifs\<close> strings; the model
  keeps the list and derives the count.
\<close>

record config_file =
  port :: int
  do_ip4 :: int
  do_ip6 :: int
  do_udp :: int
  do_tcp :: int
  incoming_num_tcp :: nat
  if_automatic :: int
  ifs :: "string list"

definition num_ifs :: "config_file \<Rightarrow> int" where
  "num_ifs cfg = int (length (ifs cfg))"

text \<open>\<open>snprintf(portbuf, sizeof(portbuf), "%d", cfg->port)\<close>: the decimal numeral.\<close>

definition digit_char :: "nat \<Rightarrow> char" where
  "digit_char n = ''0123456789'' ! n"

function dec_nat :: "nat \<Rightarrow> string" where
  "dec_nat n = (if n < 10 then [digit_char n] else dec_nat (n div 10) @ [digit_char (n mod 10)])"
  by pat_completeness auto
termination
  by (relation "measure id") auto

definition dec_int :: "int \<Rightarrow> string" where
  "dec_int i = (if i < 0 then CHR ''-'' # dec_nat (nat (- i)) else dec_nat (nat i))"

text \<open>
  Modelled from the spec: \<open>str_is_ip6\<close> (util/net_help.c, not under src/) is what
  lets the builder "classify it as IPv6 or IPv4 literal"; an IPv6 literal is told from an
  IPv4 one by its colon.
\<close>

definition str_is_ip6 :: "string \<Rightarrow> bool" where
  "str_is_ip6 str = (CHR '':'' \<in> set str)"

text \<open>
  The loop of lines 510-530 over \<open>cfg->ifs\<close>, from the current interface on:
  \<open>continue\<close> for an interface of a disabled family; a failed \<open>ports_create_if\<close> frees
  the list and returns NULL, the empty list.
\<close>

fun open_ifs ::
  "platform \<Rightarrow> int \<Rightarrow> int \<Rightarrow> int \<Rightarrow> int \<Rightarrow> addrinfo \<Rightarrow> string \<Rightarrow> string list
   \<Rightarrow> listen_port list \<Rightarrow> world \<Rightarrow> listen_port list \<times> world" where
  "open_ifs plat ip4 ip6 udp tcp hints portbuf [] list w = (list, w)"
| "open_ifs plat ip4 ip6 udp tcp hints portbuf (ifname # rest) list w =
     (if str_is_ip6 ifname then
        (if ip6 = 0 then open_ifs plat ip4 ip6 udp tcp hints portbuf rest list w
         else
           (case ports_create_if plat ifname 0 udp tcp (hints\<lparr>ai_family := AF_INET6\<rparr>)
                   portbuf list w of
              (r, list', w') \<Rightarrow>
                if r = 0 then ([], listening_ports_free list' w')
                else open_ifs plat ip4 ip6 udp tcp hints portbuf rest list' w'))
      else
        (if ip4 = 0 then open_ifs plat ip4 ip6 udp tcp hints portbuf rest list w
         else
           (case ports_create_if plat ifname 0 udp tcp (hints\<lparr>ai_family := AF_INET\<rparr>)
                   portbuf list w of
              (r, list', w') \<Rightarrow>
                if r = 0 then ([], listening_ports_free list' w')
                else open_ifs plat ip4 ip6 udp tcp hints portbuf rest list' w')))"

text \<open>
  The branch of lines 491-509 of \<open>listening_ports_open\<close>, taken in automatic mode
  or when no interface is configured: one call for IPv6, then one for IPv4, on the
  wildcard addresses in automatic mode and on the loopback addresses otherwise.
\<close>

definition open_defaults ::
  "platform \<Rightarrow> int \<Rightarrow> int \<Rightarrow> int \<Rightarrow> int \<Rightarrow> int \<Rightarrow> addrinfo \<Rightarrow> string \<Rightarrow> world
   \<Rightarrow> listen_port list \<times> world" where
  "open_defaults plat ip4 ip6 auto udp tcp hints portbuf w1 =
     (let (ok6 :: int, list6, w2) =
        (if ip6 \<noteq> 0
         then ports_create_if plat (if auto \<noteq> 0 then ''::0'' else ''::1'') auto
                udp tcp (hints\<lparr>ai_family := AF_INET6\<rparr>) portbuf [] w1
         else (1, [], w1)) in
      if ok6 = 0 then ([], listening_ports_free list6 w2)
      else
        let (ok4 :: int, list4, w3) =
          (if ip4 \<noteq> 0
           then ports_create_if plat (if auto \<noteq> 0 then ''0.0.0.0'' else ''127.0.0.1'') auto
                  udp tcp (hints\<lparr>ai_family := AF_INET\<rparr>) portbuf list6 w2
           else (1, list6, w2)) in
        if ok4 = 0 then ([], listening_ports_free list4 w3) else (list4, w3))"

text \<open>
  \<open>listening_ports_open\<close>, lines 457-532. The result is the list head; NULL, the empty
  list, is returned both for "no family enabled" and for a failure.
\<close>

definition listening_ports_open :: "platform \<Rightarrow> config_file \<Rightarrow> world \<Rightarrow> listen_port list \<times> world" where
  "listening_ports_open plat cfg w0 =
     (let portbuf = dec_int (port cfg);
          ip4 = do_ip4 cfg;
          tcp = (if incoming_num_tcp cfg = 0 then 0 else do_tcp cfg);
          auto0 = (if if_automatic cfg \<noteq> 0 \<and> do_udp cfg \<noteq> 0 then 1 else 0 :: int);
          hints = \<lparr>ai_flags = (if num_ifs cfg > 0 then {AI_PASSIVE, AI_NUMERICHOST}
                                else {AI_PASSIVE}),
                   ai_family = AF_UNSPEC, ai_socktype = SOCK_UNSPEC, ai_addr = None\<rparr>;
          ip6 = (if have_INET6 plat then do_ip6 cfg else 0)
      in
      if ip4 = 0 \<and> ip6 = 0 then ([], w0)
      else
        let (auto, w1) =
          (if auto0 \<noteq> 0 \<and> (ip4 = 0 \<or> ip6 = 0)
           then (0, log_warn ''interface_automatic option does not work when IP4 or IP6 is not enabled. Disabling option.'' w0)
           else (auto0, w0)) in
        if auto \<noteq> 0 \<or> num_ifs cfg = 0
        then open_defaults plat ip4 ip6 auto (do_udp cfg) tcp hints portbuf w1
        else open_ifs plat ip4 ip6 (do_udp cfg) tcp hints portbuf (ifs cfg) [] w1)"

section \<open>The listener aggregate\<close>

text \<open>
  Modelled from the spec: the comm point and its operations (util/netevent.c and
  util/netevent.h, not under src/). A comm point wraps one socket; its kind is
  "UDP-receive or TCP-accept" for the listening ones, and there are "other kinds (e.g.,
  already-accepted TCP connections)". The event loop either delivers readiness events for
  it or not (\<open>cp_listening\<close>). Creating one can fail; a new one is registered with the
  event loop. Destroying one releases it and closes its socket unless \<open>do_not_close\<close> is
  set. The event base and the callback are opaque to this file and left out.
\<close>

datatype comm_point_type = comm_tcp_accept | comm_tcp | comm_udp | comm_local | comm_signal

record ldns_buffer =
  buf_addr :: int
  buf_capacity :: nat

record comm_point =
  cp_fd :: int
  cp_type :: comm_point_type
  cp_ancil :: bool
  cp_buffer :: "ldns_buffer option"
  cp_max_tcp_count :: int
  do_not_close :: int
  cp_listening :: bool

definition ldns_buffer_new :: "nat \<Rightarrow> world \<Rightarrow> ldns_buffer option \<times> world" where
  "ldns_buffer_new bufsize w0 =
     (let (f, w) = fault w0 in
      if f then (None, w)
      else (Some \<lparr>buf_addr = buffers w, buf_capacity = bufsize\<rparr>, w\<lparr>buffers := buffers w + 1\<rparr>))"

definition ldns_buffer_free :: "ldns_buffer \<Rightarrow> world \<Rightarrow> world" where
  "ldns_buffer_free b w = w\<lparr>buffers := buffers w - 1\<rparr>"

definition comm_point_create_udp :: "int \<Rightarrow> ldns_buffer \<Rightarrow> world \<Rightarrow> comm_point option \<times> world" where
  "comm_point_create_udp s buf w0 =
     (let (f, w) = fault w0 in
      if f then (None, w)
      else (Some \<lparr>cp_fd = s, cp_type = comm_udp, cp_ancil = False, cp_buffer = Some buf,
                  cp_max_tcp_count = 0, do_not_close = 0, cp_listening = True\<rparr>,
            w\<lparr>commpoints := commpoints w + 1\<rparr>))"

definition comm_point_create_udp_ancil :: "int \<Rightarrow> ldns_buffer \<Rightarrow> world \<Rightarrow> comm_point option \<times> world" where
  "comm_point_create_udp_ancil s buf w0 =
     (let (f, w) = fault w0 in
      if f then (None, w)
      else (Some \<lparr>cp_fd = s, cp_type = comm_udp, cp_ancil = True, cp_buffer = Some buf,
                  cp_max_tcp_count = 0, do_not_close = 0, cp_listening = True\<rparr>,
            w\<lparr>commpoints := commpoints w + 1\<rparr>))"

definition comm_point_create_tcp :: "int \<Rightarrow> int \<Rightarrow> nat \<Rightarrow> world \<Rightarrow> comm_point option \<times> world" where
  "comm_point_create_tcp s num bufsize w0 =
     (let (f, w) = fault w0 in
      if f then (None, w)
      else (Some \<lparr>cp_fd = s, cp_type = comm_tcp_accept, cp_ancil = False, cp_buffer = None,
                  cp_max_tcp_count = num, do_not_close = 0, cp_listening = True\<rparr>,
            w\<lparr>commpoints := commpoints w + 1\<rparr>))"

definition comm_point_delete :: "comm_point \<Rightarrow> world \<Rightarrow> world" where
  "comm_point_delete c w0 =
     (let w = (if cp_fd c \<noteq> -1 \<and> do_not_close c = 0 then sys_close (cp_fd c) w0 else w0) in
      w\<lparr>commpoints := commpoints w - 1\<rparr>)"

definition comm_point_stop_listening :: "comm_point \<Rightarrow> comm_point" where
  "comm_point_stop_listening c = c\<lparr>cp_listening := False\<rparr>"

definition comm_point_start_listening :: "comm_point \<Rightarrow> comm_point" where
  "comm_point_start_listening c = c\<lparr>cp_listening := True\<rparr>"

text \<open>
  \<open>struct listen_dnsport\<close>: the comm points in list order (the \<open>listen_list\<close> nodes,
  head first) and the shared buffer.
\<close>

record listen_dnsport =
  cps :: "comm_point list"
  udp_buff :: ldns_buffer

text \<open>\<open>listen_cp_insert\<close>, lines 350-361: result and the updated aggregate.\<close>

definition listen_cp_insert :: "comm_point \<Rightarrow> listen_dnsport \<Rightarrow> world \<Rightarrow> int \<times> listen_dnsport \<times> world" where
  "listen_cp_insert c front w0 =
     (let (item, w1) = malloc w0 in
      if \<not> item then (0, front, w1)
      else (1, front\<lparr>cps := c # cps front\<rparr>, w1))"

text \<open>\<open>listen_delete\<close>, lines 414-429; \<open>None\<close> is the null pointer.\<close>

fun delete_cps :: "comm_point list \<Rightarrow> world \<Rightarrow> world" where
  "delete_cps [] w = w"
| "delete_cps (c # pn) w = delete_cps pn (free (comm_point_delete c w))"

definition listen_delete :: "listen_dnsport option \<Rightarrow> world \<Rightarrow> world" where
  "listen_delete front w =
     (case front of
        None \<Rightarrow> w
      | Some fr \<Rightarrow> free (ldns_buffer_free (udp_buff fr) (delete_cps (cps fr) w)))"

text \<open>The loop of lines 380-404 of \<open>listen_create\<close>, from the current port on.\<close>

fun create_cps ::
  "listen_port list \<Rightarrow> nat \<Rightarrow> int \<Rightarrow> listen_dnsport \<Rightarrow> world \<Rightarrow> listen_dnsport option \<times> world" where
  "create_cps [] bufsize tcp_accept_count front w = (Some front, w)"
| "create_cps (p # ports) bufsize tcp_accept_count front w =
     (let (cp, w1) =
        (case ftype p of
           listen_type_udp \<Rightarrow> comm_point_create_udp (fd p) (udp_buff front) w
         | listen_type_tcp \<Rightarrow> comm_point_create_tcp (fd p) tcp_accept_count bufsize w
         | listen_type_udpancil \<Rightarrow> comm_point_create_udp_ancil (fd p) (udp_buff front) w) in
      case cp of
        None \<Rightarrow> (None, listen_delete (Some front) (log_err ''can't create commpoint'' w1))
      | Some c0 \<Rightarrow>
          let c = c0\<lparr>do_not_close := 1\<rparr>;
              (ok, front', w2) = listen_cp_insert c front w1 in
          if ok = 0
          then (None, listen_delete (Some front') (comm_point_delete c (log_err ''malloc failed'' w2)))
          else create_cps ports bufsize tcp_accept_count front' w2)"

text \<open>\<open>listen_create\<close>, lines 363-412; \<open>None\<close> is the NULL result.\<close>

definition listen_create ::
  "listen_port list \<Rightarrow> nat \<Rightarrow> int \<Rightarrow> world \<Rightarrow> listen_dnsport option \<times> world" where
  "listen_create ports bufsize tcp_accept_count w0 =
     (let (front_ok, w1) = malloc w0 in
      if \<not> front_ok then (None, w1)
      else
        let (buf, w2) = ldns_buffer_new bufsize w1 in
        case buf of
          None \<Rightarrow> (None, free w2)
        | Some b \<Rightarrow>
            (case create_cps ports bufsize tcp_accept_count \<lparr>cps = [], udp_buff = b\<rparr> w2 of
               (None, w3) \<Rightarrow> (None, w3)
             | (Some front, w3) \<Rightarrow>
                 if cps front = []
                 then (None, listen_delete (Some front)
                               (log_err ''Could not open sockets to accept queries.'' w3))
                 else (Some front, w3)))"

text \<open>
  \<open>listen_pushback\<close>, lines 431-442, and \<open>listen_resume\<close>, lines 444-455. The C
  functions walk the list and write nothing but what the two comm-point operations
  write; with the comm points held by value, the model returns the aggregate with the
  comm points as the walk leaves them.
\<close>

definition listen_pushback :: "listen_dnsport \<Rightarrow> listen_dnsport" where
  "listen_pushback listen =
     listen\<lparr>cps := map (\<lambda>c. if cp_type c \<noteq> comm_udp \<and> cp_type c \<noteq> comm_tcp_accept then c
                              else comm_point_stop_listening c) (cps listen)\<rparr>"

definition listen_resume :: "listen_dnsport \<Rightarrow> listen_dnsport" where
  "listen_resume listen =
     listen\<lparr>cps := map (\<lambda>c. if cp_type c \<noteq> comm_udp \<and> cp_type c \<noteq> comm_tcp_accept then c
                              else comm_point_start_listening c) (cps listen)\<rparr>"

section \<open>Observations on the world\<close>

text \<open>The calls to socket(2) for a stream socket among the system calls made so far.\<close>

fun is_stream_socket :: "syscall \<Rightarrow> bool" where
  "is_stream_socket (Socket fam ty) = (ty = SOCK_STREAM)"
| "is_stream_socket _ = False"

definition stream_socket_calls :: "world \<Rightarrow> syscall list" where
  "stream_socket_calls w = filter is_stream_socket (trace w)"

text \<open>
  What the factories promise of a socket they return: family and type as asked, bound to
  the address, non-blocking, and \<open>IPV6_V6ONLY\<close> set to \<open>v6\<close> (\<open>None\<close>: never set).
\<close>

definition made :: "family \<Rightarrow> socktype \<Rightarrow> sockaddr option \<Rightarrow> int option \<Rightarrow> sock \<Rightarrow> bool" where
  "made fam ty addr v6 sk \<longleftrightarrow>
     s_family sk = fam \<and> s_type sk = ty \<and> s_bound sk = addr \<and> addr \<noteq> None
     \<and> O_NONBLOCK \<in> s_flags sk \<and> s_opts sk IPV6_V6ONLY = v6"

text \<open>The value of a socket option of descriptor \<open>s\<close>; \<open>None\<close> when it was never set.\<close>

definition sockopt_of :: "world \<Rightarrow> int \<Rightarrow> sockopt \<Rightarrow> int option" where
  "sockopt_of w s opt = (case fds w s of None \<Rightarrow> None | Some sk \<Rightarrow> s_opts sk opt)"

text \<open>The address descriptor \<open>s\<close> is bound to; \<open>None\<close> when it is closed or unbound.\<close>

definition bound_addr :: "world \<Rightarrow> int \<Rightarrow> sockaddr option" where
  "bound_addr w s = (case fds w s of None \<Rightarrow> None | Some sk \<Rightarrow> s_bound sk)"

section \<open>Concrete inputs\<close>

text \<open>A process with no descriptor open, in which every call succeeds.\<close>

definition fresh_world :: world where
  "fresh_world = \<lparr>decisions = [], fds = (\<lambda>_. None), next_fd = 3, mallocs = 0, buffers = 0,
     commpoints = 0, errlog = [], trace = []\<rparr>"

text \<open>A platform that defines every option macro the file asks for.\<close>

definition full_platform :: platform where
  "full_platform = \<lparr>have_INET6 = True, have_IPV6_V6ONLY = True, have_IPV6_USE_MIN_MTU = True,
     have_SO_REUSEADDR = True, have_IPV6_RECVPKTINFO = True, have_IPV6_PKTINFO = True,
     have_IP_RECVDSTADDR = True, have_IP_PKTINFO = True\<rparr>"

definition hints_for :: "family \<Rightarrow> addrinfo" where
  "hints_for fam = \<lparr>ai_flags = {AI_PASSIVE}, ai_family = fam, ai_socktype = SOCK_UNSPEC,
     ai_addr = None\<rparr>"

text \<open>What getaddrinfo returns for the IPv6 loopback, port 53, per socket type.\<close>

definition loopback6 :: "socktype \<Rightarrow> addrinfo" where
  "loopback6 ty = \<lparr>ai_flags = {AI_PASSIVE}, ai_family = AF_INET6, ai_socktype = ty,
     ai_addr = Some \<lparr>sa_family = AF_INET6, sa_host = ''::1'', sa_port = ''53''\<rparr>\<rparr>"

text \<open>
  An aggregate with a UDP comm point, a TCP-accept comm point and, as a comm point of
  another kind, one for an accepted TCP connection.
\<close>

definition example_listener :: listen_dnsport where
  "example_listener =
     \<lparr>cps = [\<lparr>cp_fd = 3, cp_type = comm_udp, cp_ancil = False,
                cp_buffer = Some \<lparr>buf_addr = 0, buf_capacity = 65552\<rparr>,
                cp_max_tcp_count = 0, do_not_close = 1, cp_listening = True\<rparr>,
              \<lparr>cp_fd = 4, cp_type = comm_tcp_accept, cp_ancil = False, cp_buffer = None,
                cp_max_tcp_count = 10, do_not_close = 1, cp_listening = True\<rparr>,
              \<lparr>cp_fd = 9, cp_type = comm_tcp, cp_ancil = False, cp_buffer = None,
                cp_max_tcp_count = 0, do_not_close = 0, cp_listening = True\<rparr>],
      udp_buff = \<lparr>buf_addr = 0, buf_capacity = 65552\<rparr>\<rparr>"

text \<open>
  Automatic-interface mode on port 53 with both families and UDP; TCP is asked for but
  the accept-queue depth is 0.
\<close>

definition auto_config :: config_file where
  "auto_config = \<lparr>port = 53, do_ip4 = 1, do_ip6 = 1, do_udp = 1, do_tcp = 1,
     incoming_num_tcp = 0, if_automatic = 1, ifs = []\<rparr>"

text \<open>Three explicit IPv4 interfaces, UDP only: three sockets are requested.\<close>

definition three_ifs_config :: config_file where
  "three_ifs_config = \<lparr>port = 53, do_ip4 = 1, do_ip6 = 0, do_udp = 1, do_tcp = 0,
     incoming_num_tcp = 0, if_automatic = 0,
     ifs = [''192.0.2.1'', ''192.0.2.2'', ''192.0.2.3'']\<rparr>"

text \<open>
  The world in which the ninth fallible call fails. For \<open>three_ifs_config\<close> the first
  socket takes six such calls (getaddrinfo, socket, bind, the two fcntl calls, malloc) and
  the ninth is the bind of the second socket.
\<close>

definition second_bind_fails :: world where
  "second_bind_fails = fresh_world\<lparr>decisions :=
     [False, False, False, False, False, False, False, False, True]\<rparr>"

section \<open>Properties of the system calls\<close>

lemmas syscall_defs = sys_socket_def sys_setsockopt_def sys_bind_def sys_fcntl_getfl_def
  sys_fcntl_setfl_def sys_listen_def sys_close_def fd_set_nonblock_def getaddrinfo_def
  malloc_def free_def fault_def called_def log_err_def log_warn_def new_sock_def

lemma fault_proj:
  "fault w = (f, w') \<Longrightarrow> fds w' = fds w \<and> next_fd w' = next_fd w \<and> trace w' = trace w
     \<and> mallocs w' = mallocs w \<and> buffers w' = buffers w \<and> commpoints w' = commpoints w
     \<and> errlog w' = errlog w"
  by (auto simp: fault_def split: list.splits)

lemma log_err_proj [simp]:
  "fds (log_err m w) = fds w" "next_fd (log_err m w) = next_fd w"
  "trace (log_err m w) = trace w" "mallocs (log_err m w) = mallocs w"
  "stream_socket_calls (log_err m w) = stream_socket_calls w"
  by (simp_all add: log_err_def stream_socket_calls_def)

lemma sys_socket_calls:
  "sys_socket fam ty w = (s, w') \<Longrightarrow> ty \<noteq> SOCK_STREAM \<Longrightarrow>
     stream_socket_calls w' = stream_socket_calls w"
  using fault_proj [of "called (Socket fam ty) w"]
  by (auto simp: sys_socket_def called_def Let_def stream_socket_calls_def
      split: prod.splits if_splits)

lemma sys_setsockopt_calls:
  "sys_setsockopt s opt val w = (r, w') \<Longrightarrow> stream_socket_calls w' = stream_socket_calls w"
  using fault_proj [of "called (Setsockopt s opt val) w"]
  by (auto simp: sys_setsockopt_def called_def Let_def stream_socket_calls_def
      split: prod.splits if_splits option.splits)

lemma sys_bind_calls:
  "sys_bind s addr w = (r, w') \<Longrightarrow> stream_socket_calls w' = stream_socket_calls w"
  using fault_proj [of "called (Bind s addr) w"]
  by (auto simp: sys_bind_def called_def Let_def stream_socket_calls_def
      split: prod.splits if_splits option.splits)

lemma sys_fcntl_getfl_calls:
  "sys_fcntl_getfl s w = (g, w') \<Longrightarrow> stream_socket_calls w' = stream_socket_calls w"
  using fault_proj [of "called (Fcntl_getfl s) w"]
  by (auto simp: sys_fcntl_getfl_def called_def Let_def stream_socket_calls_def
      split: prod.splits if_splits option.splits)

lemma sys_fcntl_setfl_calls:
  "sys_fcntl_setfl s flag w = (r, w') \<Longrightarrow> stream_socket_calls w' = stream_socket_calls w"
  using fault_proj [of "called (Fcntl_setfl s flag) w"]
  by (auto simp: sys_fcntl_setfl_def called_def Let_def stream_socket_calls_def
      split: prod.splits if_splits option.splits)

lemma sys_listen_calls:
  "sys_listen s n w = (r, w') \<Longrightarrow> stream_socket_calls w' = stream_socket_calls w"
  using fault_proj [of "called (Listen s n) w"]
  by (auto simp: sys_listen_def called_def Let_def stream_socket_calls_def
      split: prod.splits if_splits option.splits)

lemma fd_set_nonblock_calls:
  "fd_set_nonblock s w = (r, w') \<Longrightarrow> stream_socket_calls w' = stream_socket_calls w"
  by (auto simp: fd_set_nonblock_def Let_def split: prod.splits if_splits option.splits
      dest!: sys_fcntl_getfl_calls sys_fcntl_setfl_calls)

lemma sys_socket_ok:
  "sys_socket fam ty w = (s, w') \<Longrightarrow> s \<noteq> -1 \<Longrightarrow>
     s = int (next_fd w) \<and> next_fd w' = Suc (next_fd w)
     \<and> fds w' = (fds w)(s \<mapsto> new_sock fam ty)"
  using fault_proj [of "called (Socket fam ty) w"]
  by (auto simp: sys_socket_def called_def Let_def split: prod.splits if_splits)

lemma sys_setsockopt_ok:
  "sys_setsockopt s opt val w = (r, w') \<Longrightarrow> \<not> r < 0 \<Longrightarrow>
     next_fd w' = next_fd w
     \<and> fds w' = (fds w)(s \<mapsto> (the (fds w s))\<lparr>s_opts := (s_opts (the (fds w s)))(opt \<mapsto> val)\<rparr>)"
  using fault_proj [of "called (Setsockopt s opt val) w"]
  by (auto simp: sys_setsockopt_def called_def Let_def split: prod.splits if_splits option.splits)

lemma sys_bind_ok:
  "sys_bind s addr w = (r, w') \<Longrightarrow> r = 0 \<Longrightarrow>
     next_fd w' = next_fd w \<and> addr \<noteq> None
     \<and> fds w' = (fds w)(s \<mapsto> (the (fds w s))\<lparr>s_bound := addr\<rparr>)"
  using fault_proj [of "called (Bind s addr) w"]
  by (auto simp: sys_bind_def called_def Let_def split: prod.splits if_splits option.splits)

lemma sys_fcntl_getfl_ok:
  "sys_fcntl_getfl s w = (g, w') \<Longrightarrow> next_fd w' = next_fd w \<and> fds w' = fds w"
  using fault_proj [of "called (Fcntl_getfl s) w"]
  by (auto simp: sys_fcntl_getfl_def called_def Let_def split: prod.splits if_splits option.splits)

lemma sys_fcntl_setfl_ok:
  "sys_fcntl_setfl s flag w = (r, w') \<Longrightarrow> r \<noteq> -1 \<Longrightarrow>
     next_fd w' = next_fd w
     \<and> fds w' = (fds w)(s \<mapsto> (the (fds w s))\<lparr>s_flags := flag\<rparr>)"
  using fault_proj [of "called (Fcntl_setfl s flag) w"]
  by (auto simp: sys_fcntl_setfl_def called_def Let_def split: prod.splits if_splits option.splits)

lemma sys_listen_ok:
  "sys_listen s n w = (r, w') \<Longrightarrow> r \<noteq> -1 \<Longrightarrow>
     next_fd w' = next_fd w
     \<and> fds w' = (fds w)(s \<mapsto> (the (fds w s))\<lparr>s_backlog := Some n\<rparr>)"
  using fault_proj [of "called (Listen s n) w"]
  by (auto simp: sys_listen_def called_def Let_def split: prod.splits if_splits option.splits)

lemma fd_set_nonblock_ok:
  "fd_set_nonblock s w = (r, w') \<Longrightarrow> r \<noteq> 0 \<Longrightarrow>
     next_fd w' = next_fd w
     \<and> (\<exists>fl. fds w' = (fds w)(s \<mapsto> (the (fds w s))\<lparr>s_flags := insert O_NONBLOCK fl\<rparr>))"
  apply (simp add: fd_set_nonblock_def Let_def split: prod.splits if_splits option.splits)
   apply (auto dest!: sys_fcntl_getfl_ok sys_fcntl_setfl_ok)
  done

section \<open>Properties of the socket factory\<close>

lemma create_udp_sock_calls:
  assumes "create_udp_sock plat addr v w = (s, w')" "ai_socktype addr \<noteq> SOCK_STREAM"
  shows "stream_socket_calls w' = stream_socket_calls w"
  using assms
  apply (simp add: create_udp_sock_def Let_def split: prod.splits if_splits)
  apply (auto dest!: sys_socket_calls sys_setsockopt_calls sys_bind_calls fd_set_nonblock_calls)
  done

lemma create_udp_sock_spec:
  assumes "create_udp_sock plat addr v w = (s, w')" "s \<noteq> -1"
  shows "s = int (next_fd w) \<and> next_fd w' = Suc (next_fd w)
          \<and> (\<forall>d. d \<noteq> s \<longrightarrow> fds w' d = fds w d)
          \<and> (\<exists>sk. fds w' s = Some sk \<and> made (ai_family addr) (ai_socktype addr) (ai_addr addr)
                (if ai_family addr = AF_INET6 \<and> have_IPV6_V6ONLY plat \<and> v \<noteq> 0
                 then Some (if v = 2 then 0 else 1) else None) sk)"
  using assms
  apply (simp add: create_udp_sock_def Let_def split: prod.splits if_splits)
  apply (auto simp: made_def new_sock_def
      dest!: sys_socket_ok sys_setsockopt_ok sys_bind_ok fd_set_nonblock_ok)
  done

lemma create_tcp_accept_sock_calls:
  assumes "create_tcp_accept_sock plat addr v w = (s, w')" "ai_socktype addr \<noteq> SOCK_STREAM"
  shows "stream_socket_calls w' = stream_socket_calls w"
  using assms
  apply (simp add: create_tcp_accept_sock_def Let_def split: prod.splits if_splits option.splits)
  apply (auto dest!: sys_socket_calls sys_setsockopt_calls sys_bind_calls sys_fcntl_getfl_calls
       sys_fcntl_setfl_calls sys_listen_calls)
  done

lemma create_tcp_accept_sock_spec:
  assumes "create_tcp_accept_sock plat addr v w = (s, w')" "s \<noteq> -1"
  shows "s = int (next_fd w) \<and> next_fd w' = Suc (next_fd w)
          \<and> (\<forall>d. d \<noteq> s \<longrightarrow> fds w' d = fds w d)
          \<and> (\<exists>sk. fds w' s = Some sk \<and> made (ai_family addr) (ai_socktype addr) (ai_addr addr)
                (if ai_family addr = AF_INET6 \<and> have_IPV6_V6ONLY plat \<and> v \<noteq> 0
                 then Some 1 else None) sk)"
  using assms
  apply (simp add: create_tcp_accept_sock_def Let_def split: prod.splits if_splits option.splits)
  apply (auto simp: made_def new_sock_def
      dest!: sys_socket_ok sys_setsockopt_ok sys_bind_ok sys_fcntl_getfl_ok
       sys_fcntl_setfl_ok sys_listen_ok)
  done

lemma getaddrinfo_spec:
  assumes "getaddrinfo node service hints w = (res, w')"
  shows "fds w' = fds w \<and> next_fd w' = next_fd w \<and> stream_socket_calls w' = stream_socket_calls w
    \<and> (\<forall>a. res = Some a \<longrightarrow> ai_family a = ai_family hints \<and> ai_socktype a = ai_socktype hints
          \<and> ai_addr a = Some \<lparr>sa_family = ai_family hints, sa_host = node, sa_port = service\<rparr>)"
  using assms fault_proj [of w]
  by (auto simp: getaddrinfo_def Let_def stream_socket_calls_def split: prod.splits if_splits)

lemma make_sock_calls:
  assumes "make_sock plat SOCK_DGRAM ifname pt hints v w = (s, w')"
  shows "stream_socket_calls w' = stream_socket_calls w"
  using assms
  by (auto simp: make_sock_def Let_def split: prod.splits option.splits
      dest!: getaddrinfo_spec dest: create_udp_sock_calls)

lemma make_sock_spec:
  assumes "make_sock plat stype ifname pt hints v w = (s, w')" "s \<noteq> -1"
  shows "s = int (next_fd w) \<and> next_fd w' = Suc (next_fd w)
          \<and> (\<forall>d. d \<noteq> s \<longrightarrow> fds w' d = fds w d)
          \<and> (\<exists>sk. fds w' s = Some sk \<and> s_family sk = ai_family hints \<and> s_type sk = stype
                \<and> s_bound sk = Some \<lparr>sa_family = ai_family hints, sa_host = ifname,
                                      sa_port = pt\<rparr>)"
  using assms
  by (auto simp: make_sock_def Let_def made_def split: prod.splits option.splits if_splits
      dest!: getaddrinfo_spec create_udp_sock_spec create_tcp_accept_sock_spec)

section \<open>Properties of the port list\<close>

lemma set_recvpktinfo_calls:
  assumes "set_recvpktinfo plat s fam w = (r, w')"
  shows "stream_socket_calls w' = stream_socket_calls w"
  using assms
  by (auto simp: set_recvpktinfo_def Let_def split: prod.splits if_splits
      dest!: sys_setsockopt_calls)

lemma port_insert_spec:
  assumes "port_insert list s ft w = (r, list', w')"
  shows "fds w' = fds w \<and> next_fd w' = next_fd w \<and> stream_socket_calls w' = stream_socket_calls w
     \<and> list' = (if r = 0 then list else \<lparr>fd = s, ftype = ft\<rparr> # list)"
  using assms fault_proj [of w]
  by (auto simp: port_insert_def malloc_def Let_def stream_socket_calls_def
      split: prod.splits if_splits)

lemma sys_close_calls [simp]: "stream_socket_calls (sys_close s w) = stream_socket_calls w"
  by (simp add: sys_close_def called_def stream_socket_calls_def)

lemma free_calls [simp]: "stream_socket_calls (free w) = stream_socket_calls w"
  by (simp add: free_def stream_socket_calls_def)

lemma log_warn_calls [simp]: "stream_socket_calls (log_warn m w) = stream_socket_calls w"
  by (simp add: log_warn_def stream_socket_calls_def)

lemma listening_ports_free_calls [simp]:
  "stream_socket_calls (listening_ports_free list w) = stream_socket_calls w"
  by (induction list arbitrary: w) simp_all

lemma ports_create_if_no_tcp:
  assumes "ports_create_if plat ifname a u 0 hints pt list w = (r, list', w')"
  shows "stream_socket_calls w' = stream_socket_calls w
     \<and> (\<forall>p \<in> set list'. ftype p = listen_type_tcp \<longrightarrow> p \<in> set list)"
  using assms
  apply (simp add: ports_create_if_def Let_def split: prod.splits if_splits)
  apply (auto dest!: make_sock_calls set_recvpktinfo_calls port_insert_spec)
  done

lemma set_recvpktinfo_ok:
  assumes "set_recvpktinfo plat s fam w = (r, w')" and "r \<noteq> 0" and "fds w s = Some sk"
  shows "next_fd w' = next_fd w \<and> (\<forall>d. d \<noteq> s \<longrightarrow> fds w' d = fds w d)
     \<and> (\<exists>sk'. fds w' s = Some sk' \<and> s_type sk' = s_type sk \<and> s_bound sk' = s_bound sk
           \<and> (fam = AF_INET6 \<longrightarrow>
                 (if have_IPV6_RECVPKTINFO plat then s_opts sk' IPV6_RECVPKTINFO = Some 1
                  else s_opts sk' IPV6_PKTINFO = Some 1))
           \<and> (fam = AF_INET \<longrightarrow>
                 (if have_IP_RECVDSTADDR plat then s_opts sk' IP_RECVDSTADDR = Some 1
                  else s_opts sk' IP_PKTINFO = Some 1)))"
  using assms
  by (auto simp: set_recvpktinfo_def Let_def split: prod.splits if_splits
      dest!: sys_setsockopt_ok)

lemma ports_create_if_auto_ok:
  assumes "ports_create_if plat ifname a u t hints pt list w = (r, list', w')"
    and "r \<noteq> 0" and "a \<noteq> 0"
  shows "next_fd w < next_fd w'
     \<and> (\<forall>d. d < int (next_fd w) \<longrightarrow> fds w' d = fds w d)
     \<and> filter (\<lambda>p. ftype p = listen_type_udpancil) list'
         = \<lparr>fd = int (next_fd w), ftype = listen_type_udpancil\<rparr>
           # filter (\<lambda>p. ftype p = listen_type_udpancil) list
     \<and> (\<forall>p \<in> set list'. ftype p = listen_type_udp \<longrightarrow> p \<in> set list)
     \<and> (\<exists>sk. fds w' (int (next_fd w)) = Some sk \<and> s_type sk = SOCK_DGRAM
           \<and> s_bound sk = Some \<lparr>sa_family = ai_family hints, sa_host = ifname, sa_port = pt\<rparr>
           \<and> (ai_family hints = AF_INET6 \<longrightarrow>
                 (if have_IPV6_RECVPKTINFO plat then s_opts sk IPV6_RECVPKTINFO = Some 1
                  else s_opts sk IPV6_PKTINFO = Some 1))
           \<and> (ai_family hints = AF_INET \<longrightarrow>
                 (if have_IP_RECVDSTADDR plat then s_opts sk IP_RECVDSTADDR = Some 1
                  else s_opts sk IP_PKTINFO = Some 1)))"
proof -
  let ?anc = "filter (\<lambda>p. ftype p = listen_type_udpancil)"
  obtain s wa where mk: "make_sock plat SOCK_DGRAM ifname pt hints 1 w = (s, wa)"
    by force
  obtain r1 wb where rp: "set_recvpktinfo plat s (ai_family hints) wa = (r1, wb)"
    by force
  obtain i l wc where ins: "port_insert list s listen_type_udpancil wb = (i, l, wc)"
    by (metis prod_cases3)
  obtain s2 wd where mk2: "make_sock plat SOCK_STREAM ifname pt hints 1 wc = (s2, wd)"
    by force
  obtain i2 l2 we where ins2: "port_insert l s2 listen_type_tcp wd = (i2, l2, we)"
    by (metis prod_cases3)
  from assms(1,2) have nz: "\<not> (u = 0 \<and> t = 0)"
    by (auto simp: ports_create_if_def)
  have "ports_create_if plat ifname a u t hints pt list w =
      (if s = -1 then (0, list, wa)
       else if r1 = 0 then (0, list, wb)
       else if i = 0 then (0, l, sys_close s wc)
       else if t = 0 then (1, l, wc)
       else if s2 = -1 then (0, l, wd)
       else if i2 = 0 then (0, l2, sys_close s2 we)
       else (1, l2, we))"
    using nz assms(3) by (simp add: ports_create_if_def Let_def mk rp ins mk2 ins2)
  with assms(1,2) have ok: "s \<noteq> -1" "r1 \<noteq> 0" "i \<noteq> 0"
    and fin: "t = 0 \<and> list' = l \<and> w' = wc
        \<or> s2 \<noteq> -1 \<and> i2 \<noteq> 0 \<and> list' = l2 \<and> w' = we"
    by (auto split: if_splits)
  from make_sock_spec [OF mk ok(1)] obtain sk where
    a: "s = int (next_fd w)" "next_fd wa = Suc (next_fd w)"
      "\<forall>d. d \<noteq> s \<longrightarrow> fds wa d = fds w d" "fds wa s = Some sk" "s_type sk = SOCK_DGRAM"
      "s_bound sk = Some \<lparr>sa_family = ai_family hints, sa_host = ifname, sa_port = pt\<rparr>"
    by blast
  from set_recvpktinfo_ok [OF rp ok(2) a(4)] a(5,6) obtain sk' where
    b: "next_fd wb = next_fd wa" "\<forall>d. d \<noteq> s \<longrightarrow> fds wb d = fds wa d" "fds wb s = Some sk'"
      "s_type sk' = SOCK_DGRAM"
      "s_bound sk' = Some \<lparr>sa_family = ai_family hints, sa_host = ifname, sa_port = pt\<rparr>"
      "ai_family hints = AF_INET6 \<longrightarrow>
         (if have_IPV6_RECVPKTINFO plat then s_opts sk' IPV6_RECVPKTINFO = Some 1
          else s_opts sk' IPV6_PKTINFO = Some 1)"
      "ai_family hints = AF_INET \<longrightarrow>
         (if have_IP_RECVDSTADDR plat then s_opts sk' IP_RECVDSTADDR = Some 1
          else s_opts sk' IP_PKTINFO = Some 1)"
    by auto
  from port_insert_spec [OF ins] ok(3) have
    c: "fds wc = fds wb" "next_fd wc = next_fd wb"
      "l = \<lparr>fd = s, ftype = listen_type_udpancil\<rparr> # list"
    by simp_all
  have udp: "next_fd w < next_fd wc" "\<forall>d. d \<noteq> s \<longrightarrow> fds wc d = fds w d" "fds wc s = Some sk'"
    using a b c by simp_all
  from fin show ?thesis
  proof
    assume "t = 0 \<and> list' = l \<and> w' = wc"
    with udp a(1) b c(3) show ?thesis
      by auto
  next
    assume f: "s2 \<noteq> -1 \<and> i2 \<noteq> 0 \<and> list' = l2 \<and> w' = we"
    from make_sock_spec [OF mk2] f have
      d: "s2 = int (next_fd wc)" "next_fd wd = Suc (next_fd wc)"
        "\<forall>d. d \<noteq> s2 \<longrightarrow> fds wd d = fds wc d"
      by simp_all
    from port_insert_spec [OF ins2] f have
      e: "fds we = fds wd" "next_fd we = next_fd wd"
        "l2 = \<lparr>fd = s2, ftype = listen_type_tcp\<rparr> # l"
      by simp_all
    have "s \<noteq> s2" "\<forall>x. x < int (next_fd w) \<longrightarrow> x \<noteq> s2 \<and> x \<noteq> s"
      using a(1,2) b(1) c(2) d(1) by simp_all
    with udp a(1) b c(3) d e f show ?thesis
      by auto
  qed
qed

section \<open>Inserting a port descriptor\<close>

text \<open>
  C10. Inserting a port descriptor is atomic. The call returns 1 or 0. It returns 0
  exactly when the allocation fails, and then the list is what it was and no block
  stays allocated; when it returns 1 the new list is one new node with the given
  descriptor and kind in front of the old list, and one more block is live. Nothing
  else of the world changes but the consumed decision of the environment.
\<close>

theorem port_insert_atomic:
  assumes "port_insert list s ft w = (r, list', w')"
  shows "(r = 0 \<or> r = 1)
    \<and> (r = 0 \<longleftrightarrow> fst (fault w))
    \<and> (r = 0 \<longrightarrow> list' = list \<and> mallocs w' = mallocs w)
    \<and> (r = 1 \<longrightarrow> list' = \<lparr>fd = s, ftype = ft\<rparr> # list \<and> mallocs w' = mallocs w + 1)
    \<and> fds w' = fds w \<and> trace w' = trace w \<and> errlog w' = errlog w"
  using assms
  by (auto simp: port_insert_def malloc_def fault_def split: list.splits if_splits)

theorem port_insert_atomic_witness:
  "port_insert [] 7 listen_type_udp fresh_world
     = (1, [\<lparr>fd = 7, ftype = listen_type_udp\<rparr>], fresh_world\<lparr>mallocs := 1\<rparr>)
   \<and> \<not> fst (fault fresh_world)"
  using port_insert_atomic [of "[]" 7 listen_type_udp fresh_world 1
      "[\<lparr>fd = 7, ftype = listen_type_udp\<rparr>]" "fresh_world\<lparr>mallocs := 1\<rparr>"]
  by (simp add: port_insert_def malloc_def fault_def fresh_world_def)

section \<open>Creating the ports of one interface\<close>

text \<open>
  C3, as the code has it. With neither UDP nor TCP wanted the per-interface operation
  returns 0, its error value, whatever the automatic-mode flag is; the port list and the
  world (so every descriptor) are left as they were.
\<close>

theorem ports_create_if_nothing_wanted:
  "ports_create_if plat ifname do_auto 0 0 hints portbuf list w = (0, list, w)"
  by (simp add: ports_create_if_def)

text \<open>
  C3, as the spec has it, fails: the call for 127.0.0.1 with no transport wanted and
  automatic mode off does not return 1 (success).
\<close>

theorem ports_create_if_nothing_wanted_counterexample:
  "fst (ports_create_if full_platform ''127.0.0.1'' 0 0 0 (hints_for AF_INET) ''53'' []
     fresh_world) \<noteq> 1"
  by (simp add: ports_create_if_def)

section \<open>No family enabled\<close>

text \<open>
  C5. With IPv4 and IPv6 both disabled, building the port set returns the empty list and
  leaves the world as it was: no system call is made, so no socket is created, and
  nothing is logged, so no error is reported.
\<close>

theorem listening_ports_open_no_family:
  assumes "do_ip4 cfg = 0" and "do_ip6 cfg = 0"
  shows "listening_ports_open plat cfg w = ([], w)"
  using assms by (simp add: listening_ports_open_def Let_def)

theorem listening_ports_open_no_family_witness:
  "listening_ports_open full_platform
     \<lparr>port = 53, do_ip4 = 0, do_ip6 = 0, do_udp = 1, do_tcp = 1, incoming_num_tcp = 10,
      if_automatic = 0, ifs = [''192.0.2.1'']\<rparr> fresh_world = ([], fresh_world)"
  using listening_ports_open_no_family [of
     "\<lparr>port = 53, do_ip4 = 0, do_ip6 = 0, do_udp = 1, do_tcp = 1, incoming_num_tcp = 10,
      if_automatic = 0, ifs = [''192.0.2.1'']\<rparr>" full_platform fresh_world]
  by simp

section \<open>Sockets leave the factory bound and non-blocking\<close>

text \<open>
  C9. Whenever the UDP socket factory or the TCP accept-socket factory returns a handle
  other than -1, that handle is an open descriptor of the resulting world, bound to the
  requested address (which is not null), with \<open>O_NONBLOCK\<close> among its status flags.
\<close>

theorem socket_factory_bound_nonblocking:
  assumes "create_udp_sock plat addr v w = (s, w')
         \<or> create_tcp_accept_sock plat addr v w = (s, w')"
    and "s \<noteq> -1"
  shows "\<exists>sk. fds w' s = Some sk \<and> s_bound sk = ai_addr addr \<and> ai_addr addr \<noteq> None
           \<and> O_NONBLOCK \<in> s_flags sk"
proof -
  from assms have "\<exists>v6 sk. fds w' s = Some sk
      \<and> made (ai_family addr) (ai_socktype addr) (ai_addr addr) v6 sk"
    by (metis create_udp_sock_spec create_tcp_accept_sock_spec)
  then show ?thesis
    by (auto simp: made_def)
qed

lemma create_udp_sock_loopback6:
  "fst (create_udp_sock full_platform (loopback6 SOCK_DGRAM) 1 fresh_world) = 3"
  by (simp add: create_udp_sock_def loopback6_def full_platform_def fresh_world_def
      syscall_defs Let_def)

lemma create_tcp_accept_sock_loopback6:
  "fst (create_tcp_accept_sock full_platform (loopback6 SOCK_STREAM) 1 fresh_world) = 3"
  by (simp add: create_tcp_accept_sock_def loopback6_def full_platform_def fresh_world_def
      syscall_defs Let_def TCP_BACKLOG_def)

theorem socket_factory_bound_nonblocking_witness:
  "fst (create_udp_sock full_platform (loopback6 SOCK_DGRAM) 1 fresh_world) \<noteq> -1
   \<and> (\<exists>sk. fds (snd (create_udp_sock full_platform (loopback6 SOCK_DGRAM) 1 fresh_world))
              (fst (create_udp_sock full_platform (loopback6 SOCK_DGRAM) 1 fresh_world)) = Some sk
         \<and> s_bound sk = ai_addr (loopback6 SOCK_DGRAM) \<and> O_NONBLOCK \<in> s_flags sk)
   \<and> fst (create_tcp_accept_sock full_platform (loopback6 SOCK_STREAM) 1 fresh_world) \<noteq> -1
   \<and> (\<exists>sk. fds (snd (create_tcp_accept_sock full_platform (loopback6 SOCK_STREAM) 1 fresh_world))
              (fst (create_tcp_accept_sock full_platform (loopback6 SOCK_STREAM) 1 fresh_world)) = Some sk
         \<and> s_bound sk = ai_addr (loopback6 SOCK_STREAM) \<and> O_NONBLOCK \<in> s_flags sk)"
proof -
  let ?u = "create_udp_sock full_platform (loopback6 SOCK_DGRAM) 1 fresh_world"
  let ?t = "create_tcp_accept_sock full_platform (loopback6 SOCK_STREAM) 1 fresh_world"
  have u: "fst ?u \<noteq> -1" and t: "fst ?t \<noteq> -1"
    by (simp_all add: create_udp_sock_loopback6 create_tcp_accept_sock_loopback6)
  have "?u = (fst ?u, snd ?u) \<or> create_tcp_accept_sock full_platform (loopback6 SOCK_DGRAM) 1
      fresh_world = (fst ?u, snd ?u)"
    by simp
  from socket_factory_bound_nonblocking [OF this u]
  have 1: "\<exists>sk. fds (snd ?u) (fst ?u) = Some sk \<and> s_bound sk = ai_addr (loopback6 SOCK_DGRAM)
      \<and> O_NONBLOCK \<in> s_flags sk"
    by blast
  have "create_udp_sock full_platform (loopback6 SOCK_STREAM) 1 fresh_world = (fst ?t, snd ?t)
      \<or> ?t = (fst ?t, snd ?t)"
    by simp
  from socket_factory_bound_nonblocking [OF this t]
  have 2: "\<exists>sk. fds (snd ?t) (fst ?t) = Some sk \<and> s_bound sk = ai_addr (loopback6 SOCK_STREAM)
      \<and> O_NONBLOCK \<in> s_flags sk"
    by blast
  from u t 1 2 show ?thesis
    by blast
qed

section \<open>The v6-only restriction of the two factories\<close>

text \<open>
  C4, as the code has it. For an IPv6 address and a v6only mode other than 2 (so for
  modes 0 and 1), or on a platform without \<open>IPV6_V6ONLY\<close>, a socket returned by the
  TCP accept-socket factory carries the same \<open>IPV6_V6ONLY\<close> value, set or not set, as
  one returned by the UDP factory. For mode 2 on a platform with \<open>IPV6_V6ONLY\<close> the
  UDP factory writes 0 and the TCP factory, which treats the mode as a flag, writes 1.
\<close>

theorem tcp_v6only_as_udp:
  assumes "create_udp_sock plat a v w1 = (s1, w1')" and "s1 \<noteq> -1"
    and "create_tcp_accept_sock plat b v w2 = (s2, w2')" and "s2 \<noteq> -1"
    and "ai_family a = AF_INET6" and "ai_family b = AF_INET6"
  shows "(v \<noteq> 2 \<or> \<not> have_IPV6_V6ONLY plat \<longrightarrow>
            sockopt_of w2' s2 IPV6_V6ONLY = sockopt_of w1' s1 IPV6_V6ONLY)
       \<and> (v = 2 \<and> have_IPV6_V6ONLY plat \<longrightarrow>
            sockopt_of w1' s1 IPV6_V6ONLY = Some 0 \<and> sockopt_of w2' s2 IPV6_V6ONLY = Some 1)"
proof -
  from create_udp_sock_spec [OF assms(1,2)] assms(5)
  have u: "sockopt_of w1' s1 IPV6_V6ONLY
      = (if have_IPV6_V6ONLY plat \<and> v \<noteq> 0 then Some (if v = 2 then 0 else 1) else None)"
    by (auto simp: sockopt_of_def made_def)
  from create_tcp_accept_sock_spec [OF assms(3,4)] assms(6)
  have t: "sockopt_of w2' s2 IPV6_V6ONLY
      = (if have_IPV6_V6ONLY plat \<and> v \<noteq> 0 then Some 1 else None)"
    by (auto simp: sockopt_of_def made_def)
  from u t show ?thesis
    by simp
qed

theorem tcp_v6only_as_udp_witness:
  "fst (create_udp_sock full_platform (loopback6 SOCK_DGRAM) 1 fresh_world) \<noteq> -1
   \<and> fst (create_tcp_accept_sock full_platform (loopback6 SOCK_STREAM) 1 fresh_world) \<noteq> -1
   \<and> ai_family (loopback6 SOCK_DGRAM) = AF_INET6 \<and> ai_family (loopback6 SOCK_STREAM) = AF_INET6
   \<and> sockopt_of (snd (create_tcp_accept_sock full_platform (loopback6 SOCK_STREAM) 1 fresh_world))
        (fst (create_tcp_accept_sock full_platform (loopback6 SOCK_STREAM) 1 fresh_world))
        IPV6_V6ONLY
     = sockopt_of (snd (create_udp_sock full_platform (loopback6 SOCK_DGRAM) 1 fresh_world))
        (fst (create_udp_sock full_platform (loopback6 SOCK_DGRAM) 1 fresh_world)) IPV6_V6ONLY"
proof -
  let ?u = "create_udp_sock full_platform (loopback6 SOCK_DGRAM) 1 fresh_world"
  let ?t = "create_tcp_accept_sock full_platform (loopback6 SOCK_STREAM) 1 fresh_world"
  have u: "fst ?u \<noteq> -1" and t: "fst ?t \<noteq> -1"
    by (simp_all add: create_udp_sock_loopback6 create_tcp_accept_sock_loopback6)
  have f: "ai_family (loopback6 SOCK_DGRAM) = AF_INET6"
    "ai_family (loopback6 SOCK_STREAM) = AF_INET6"
    by (simp_all add: loopback6_def)
  have "?u = (fst ?u, snd ?u)" and "?t = (fst ?t, snd ?t)"
    by simp_all
  from tcp_v6only_as_udp [OF this(1) u this(2) t f] u t f show ?thesis
    by simp
qed

text \<open>
  C4, as the spec has it, fails at mode 2: on a platform with \<open>IPV6_V6ONLY\<close> both
  factories succeed for the IPv6 loopback, the UDP socket has the option at 0 and the
  TCP socket has it at 1, so mode 2 does not disable v6-only on the TCP socket.
\<close>

theorem tcp_v6only_mode2_counterexample:
  "fst (create_udp_sock full_platform (loopback6 SOCK_DGRAM) 2 fresh_world) = 3
   \<and> fst (create_tcp_accept_sock full_platform (loopback6 SOCK_STREAM) 2 fresh_world) = 3
   \<and> sockopt_of (snd (create_udp_sock full_platform (loopback6 SOCK_DGRAM) 2 fresh_world)) 3
        IPV6_V6ONLY = Some 0
   \<and> sockopt_of (snd (create_tcp_accept_sock full_platform (loopback6 SOCK_STREAM) 2 fresh_world)) 3
        IPV6_V6ONLY = Some 1"
  by (simp add: create_udp_sock_def create_tcp_accept_sock_def loopback6_def full_platform_def
      fresh_world_def syscall_defs Let_def TCP_BACKLOG_def sockopt_of_def)

section \<open>The listener aggregate is never empty\<close>

lemma listen_cp_insert_spec:
  assumes "listen_cp_insert c front w = (r, front', w')"
  shows "udp_buff front' = udp_buff front
     \<and> cps front' = (if r = 0 then cps front else c # cps front)"
  using assms
  by (auto simp: listen_cp_insert_def Let_def split: prod.splits if_splits)

lemma create_cps_length:
  assumes "create_cps ports bufsize n front w = (Some front', w')"
  shows "length (cps front') = length (cps front) + length ports
     \<and> udp_buff front' = udp_buff front"
  using assms
proof (induction ports arbitrary: front w)
  case Nil
  then show ?case by simp
next
  case (Cons p ports)
  from Cons.prems obtain c r front1 w1 w2 where
    ins: "listen_cp_insert c front w1 = (r, front1, w2)" and r: "r \<noteq> 0"
    and rest: "create_cps ports bufsize n front1 w2 = (Some front', w')"
    by (auto simp: Let_def split: prod.splits option.splits if_splits)
  from listen_cp_insert_spec [OF ins] r Cons.IH [OF rest] show ?case
    by simp
qed

text \<open>
  C7. A listener aggregate that \<open>listen_create\<close> returns has a non-empty comm-point
  collection, with one comm point per port descriptor. For the port list that yields no
  comm point, the empty one, creation fails, and what it had allocated is torn down: the
  numbers of live malloc blocks, buffers and comm points and the descriptor table are
  what they were before the call.
\<close>

theorem listen_create_nonempty:
  "(listen_create ports bufsize n w = (Some front, w') \<longrightarrow>
      cps front \<noteq> [] \<and> length (cps front) = length ports)
   \<and> fst (listen_create [] bufsize n w) = None
   \<and> mallocs (snd (listen_create [] bufsize n w)) = mallocs w
   \<and> buffers (snd (listen_create [] bufsize n w)) = buffers w
   \<and> commpoints (snd (listen_create [] bufsize n w)) = commpoints w
   \<and> fds (snd (listen_create [] bufsize n w)) = fds w"
proof -
  have "cps front \<noteq> [] \<and> length (cps front) = length ports"
    if "listen_create ports bufsize n w = (Some front, w')"
  proof -
    from that obtain b w2 where
      "create_cps ports bufsize n \<lparr>cps = [], udp_buff = b\<rparr> w2 = (Some front, w')"
      and "cps front \<noteq> []"
      by (auto simp: listen_create_def Let_def split: prod.splits option.splits if_splits)
    with create_cps_length [OF this(1)] show ?thesis
      by simp
  qed
  moreover have "fst (listen_create [] bufsize n w) = None
     \<and> mallocs (snd (listen_create [] bufsize n w)) = mallocs w
     \<and> buffers (snd (listen_create [] bufsize n w)) = buffers w
     \<and> commpoints (snd (listen_create [] bufsize n w)) = commpoints w
     \<and> fds (snd (listen_create [] bufsize n w)) = fds w"
    by (simp add: listen_create_def listen_delete_def ldns_buffer_new_def ldns_buffer_free_def
        malloc_def free_def fault_def log_err_def Let_def split: list.splits)
  ultimately show ?thesis
    by blast
qed

theorem listen_create_nonempty_witness:
  "fst (listen_create [\<lparr>fd = 3, ftype = listen_type_udp\<rparr>] 65552 10 fresh_world) \<noteq> None
   \<and> cps (the (fst (listen_create [\<lparr>fd = 3, ftype = listen_type_udp\<rparr>] 65552 10 fresh_world)))
       \<noteq> []"
proof -
  let ?r = "listen_create [\<lparr>fd = 3, ftype = listen_type_udp\<rparr>] 65552 10 fresh_world"
  have ok: "fst ?r \<noteq> None"
    by (simp add: listen_create_def listen_cp_insert_def comm_point_create_udp_def
        ldns_buffer_new_def malloc_def fault_def fresh_world_def Let_def)
  then have "?r = (Some (the (fst ?r)), snd ?r)"
    by (simp add: prod_eq_iff)
  with listen_create_nonempty [of "[\<lparr>fd = 3, ftype = listen_type_udp\<rparr>]" 65552 10 fresh_world
      "the (fst ?r)" "snd ?r"] ok
  show ?thesis
    by blast
qed

section \<open>Pause and resume\<close>

text \<open>
  C8. Pause (\<open>listen_pushback\<close>), resume (\<open>listen_resume\<close>) and pause followed by
  resume each leave the shared buffer of the aggregate as it is and leave the comm-point
  collection as it is, entry by entry and in the same order, up to the readiness-delivery
  state: overwriting that state with any one value \<open>b\<close> makes the collections equal. A
  comm point whose kind is neither UDP-receive nor TCP-accept is not changed at all by
  either operation.
\<close>

theorem listen_pushback_resume_frame:
  "udp_buff (listen_pushback l) = udp_buff l
   \<and> udp_buff (listen_resume l) = udp_buff l
   \<and> udp_buff (listen_resume (listen_pushback l)) = udp_buff l
   \<and> map (\<lambda>c. c\<lparr>cp_listening := b\<rparr>) (cps (listen_pushback l))
       = map (\<lambda>c. c\<lparr>cp_listening := b\<rparr>) (cps l)
   \<and> map (\<lambda>c. c\<lparr>cp_listening := b\<rparr>) (cps (listen_resume l))
       = map (\<lambda>c. c\<lparr>cp_listening := b\<rparr>) (cps l)
   \<and> map (\<lambda>c. c\<lparr>cp_listening := b\<rparr>) (cps (listen_resume (listen_pushback l)))
       = map (\<lambda>c. c\<lparr>cp_listening := b\<rparr>) (cps l)
   \<and> (\<forall>i < length (cps l).
         cp_type (cps l ! i) \<noteq> comm_udp \<and> cp_type (cps l ! i) \<noteq> comm_tcp_accept \<longrightarrow>
         cps (listen_pushback l) ! i = cps l ! i \<and> cps (listen_resume l) ! i = cps l ! i)"
  by (simp add: listen_pushback_def listen_resume_def comm_point_stop_listening_def
      comm_point_start_listening_def)

theorem listen_pushback_resume_frame_witness:
  "2 < length (cps example_listener)
   \<and> cp_type (cps example_listener ! 2) \<noteq> comm_udp
   \<and> cp_type (cps example_listener ! 2) \<noteq> comm_tcp_accept
   \<and> cps (listen_pushback example_listener) ! 2 = cps example_listener ! 2
   \<and> cps (listen_resume example_listener) ! 2 = cps example_listener ! 2"
proof -
  have h: "2 < length (cps example_listener)"
    "cp_type (cps example_listener ! 2) \<noteq> comm_udp"
    "cp_type (cps example_listener ! 2) \<noteq> comm_tcp_accept"
    by (simp_all add: example_listener_def)
  with listen_pushback_resume_frame [of example_listener True] show ?thesis
    by blast
qed

section \<open>Evaluating the port set builder\<close>

lemma dec_int_53: "dec_int 53 = ''53''"
  by (simp add: dec_int_def digit_char_def)

lemmas port_defs = open_defaults_def ports_create_if_def make_sock_def create_udp_sock_def
  create_tcp_accept_sock_def set_recvpktinfo_def port_insert_def

lemma auto_config_opens:
  "fst (listening_ports_open full_platform auto_config fresh_world) \<noteq> []"
  by (simp add: listening_ports_open_def auto_config_def full_platform_def fresh_world_def
      num_ifs_def dec_int_53 port_defs syscall_defs Let_def)

section \<open>Automatic-interface mode\<close>

text \<open>
  C1, as the code has it. In automatic-interface mode with IPv4 and IPv6 both enabled
  (on a platform built with INET6), a port set that is built (a non-empty result; a
  failure returns the empty list) holds exactly two UDP ancillary-capture descriptors.
  The socket of one is a datagram socket bound to the IPv6 wildcard \<open>::0\<close> with the
  IPv6 packet-info option switched on (\<open>IPV6_RECVPKTINFO\<close>, or \<open>IPV6_PKTINFO\<close> where
  the platform lacks the former); the socket of the other is a datagram socket bound to
  the IPv4 wildcard \<open>0.0.0.0\<close> with the IPv4 packet-info option switched on
  (\<open>IP_RECVDSTADDR\<close>, or \<open>IP_PKTINFO\<close> where the platform lacks the former). For a
  configured port in 0..65535 both are bound at that port. IPv4 gets the same
  wildcard-plus-packet-info treatment as IPv6, and no plain UDP descriptor is created.
\<close>

theorem auto_mode_ancil_both_families:
  assumes "if_automatic cfg \<noteq> 0" and "do_udp cfg \<noteq> 0"
    and "do_ip4 cfg \<noteq> 0" and "do_ip6 cfg \<noteq> 0" and "have_INET6 plat"
    and "listening_ports_open plat cfg w = (l, w')" and "l \<noteq> []"
  shows "\<exists>p4 p6. filter (\<lambda>p. ftype p = listen_type_udpancil) l = [p4, p6]
     \<and> map_option s_type (fds w' (fd p6)) = Some SOCK_DGRAM
     \<and> map_option sa_family (bound_addr w' (fd p6)) = Some AF_INET6
     \<and> map_option sa_host (bound_addr w' (fd p6)) = Some ''::0''
     \<and> (if have_IPV6_RECVPKTINFO plat
         then sockopt_of w' (fd p6) IPV6_RECVPKTINFO = Some 1
         else sockopt_of w' (fd p6) IPV6_PKTINFO = Some 1)
     \<and> map_option s_type (fds w' (fd p4)) = Some SOCK_DGRAM
     \<and> map_option sa_family (bound_addr w' (fd p4)) = Some AF_INET
     \<and> map_option sa_host (bound_addr w' (fd p4)) = Some ''0.0.0.0''
     \<and> (if have_IP_RECVDSTADDR plat
         then sockopt_of w' (fd p4) IP_RECVDSTADDR = Some 1
         else sockopt_of w' (fd p4) IP_PKTINFO = Some 1)
     \<and> (0 \<le> port cfg \<and> port cfg \<le> 65535 \<longrightarrow>
           map_option sa_port (bound_addr w' (fd p6)) = Some (dec_int (port cfg))
           \<and> map_option sa_port (bound_addr w' (fd p4)) = Some (dec_int (port cfg)))
     \<and> (\<forall>p \<in> set l. ftype p \<noteq> listen_type_udp)"
proof -
  let ?anc = "filter (\<lambda>p. ftype p = listen_type_udpancil)"
  let ?pb = "dec_int (port cfg)"
  let ?t = "if incoming_num_tcp cfg = 0 then 0 else do_tcp cfg"
  let ?h = "\<lambda>fam. \<lparr>ai_flags = (if num_ifs cfg > 0 then {AI_PASSIVE, AI_NUMERICHOST}
                                   else {AI_PASSIVE}),
                      ai_family = fam, ai_socktype = SOCK_UNSPEC, ai_addr = None\<rparr>"
  obtain r6 list6 w2 where
    six: "ports_create_if plat ''::0'' 1 (do_udp cfg) ?t (?h AF_INET6) ?pb [] w = (r6, list6, w2)"
    by (metis prod_cases3)
  obtain r4 list4 w3 where
    four: "ports_create_if plat ''0.0.0.0'' 1 (do_udp cfg) ?t (?h AF_INET) ?pb list6 w2
             = (r4, list4, w3)"
    by (metis prod_cases3)
  have "listening_ports_open plat cfg w =
      (if r6 = 0 then ([], listening_ports_free list6 w2)
       else if r4 = 0 then ([], listening_ports_free list4 w3) else (list4, w3))"
    using assms(1-5) six four
    by (simp add: listening_ports_open_def open_defaults_def Let_def)
  with assms(6,7) have r: "r6 \<noteq> 0" "r4 \<noteq> 0" and "list4 = l" "w3 = w'"
    by (auto split: if_splits)
  note four = four [unfolded this(3,4)]
  from ports_create_if_auto_ok [OF six r(1)] obtain sk6 where
    a6: "next_fd w < next_fd w2"
      "?anc list6 = [\<lparr>fd = int (next_fd w), ftype = listen_type_udpancil\<rparr>]"
      "\<forall>p \<in> set list6. ftype p \<noteq> listen_type_udp"
      "fds w2 (int (next_fd w)) = Some sk6" "s_type sk6 = SOCK_DGRAM"
      "s_bound sk6 = Some \<lparr>sa_family = AF_INET6, sa_host = ''::0'', sa_port = ?pb\<rparr>"
      "if have_IPV6_RECVPKTINFO plat then s_opts sk6 IPV6_RECVPKTINFO = Some 1
       else s_opts sk6 IPV6_PKTINFO = Some 1"
    by auto
  from ports_create_if_auto_ok [OF four r(2)] obtain sk4 where
    a4: "\<forall>d. d < int (next_fd w2) \<longrightarrow> fds w' d = fds w2 d"
      "?anc l = \<lparr>fd = int (next_fd w2), ftype = listen_type_udpancil\<rparr> # ?anc list6"
      "\<forall>p \<in> set l. ftype p = listen_type_udp \<longrightarrow> p \<in> set list6"
      "fds w' (int (next_fd w2)) = Some sk4" "s_type sk4 = SOCK_DGRAM"
      "s_bound sk4 = Some \<lparr>sa_family = AF_INET, sa_host = ''0.0.0.0'', sa_port = ?pb\<rparr>"
      "if have_IP_RECVDSTADDR plat then s_opts sk4 IP_RECVDSTADDR = Some 1
       else s_opts sk4 IP_PKTINFO = Some 1"
    by auto
  from a6(1,4) a4(1) have keep: "fds w' (int (next_fd w)) = Some sk6"
    by simp
  have two: "?anc l = [\<lparr>fd = int (next_fd w2), ftype = listen_type_udpancil\<rparr>,
      \<lparr>fd = int (next_fd w), ftype = listen_type_udpancil\<rparr>]"
    using a4(2) a6(2) by simp
  have none: "\<forall>p \<in> set l. ftype p \<noteq> listen_type_udp"
    using a4(3) a6(3) by blast
  have p6: "map_option s_type (fds w' (int (next_fd w))) = Some SOCK_DGRAM"
    "bound_addr w' (int (next_fd w))
       = Some \<lparr>sa_family = AF_INET6, sa_host = ''::0'', sa_port = ?pb\<rparr>"
    "if have_IPV6_RECVPKTINFO plat
     then sockopt_of w' (int (next_fd w)) IPV6_RECVPKTINFO = Some 1
     else sockopt_of w' (int (next_fd w)) IPV6_PKTINFO = Some 1"
    using keep a6(5,6,7) by (simp_all add: bound_addr_def sockopt_of_def)
  have p4: "map_option s_type (fds w' (int (next_fd w2))) = Some SOCK_DGRAM"
    "bound_addr w' (int (next_fd w2))
       = Some \<lparr>sa_family = AF_INET, sa_host = ''0.0.0.0'', sa_port = ?pb\<rparr>"
    "if have_IP_RECVDSTADDR plat
     then sockopt_of w' (int (next_fd w2)) IP_RECVDSTADDR = Some 1
     else sockopt_of w' (int (next_fd w2)) IP_PKTINFO = Some 1"
    using a4(4,5,6,7) by (simp_all add: bound_addr_def sockopt_of_def)
  show ?thesis
    apply (rule exI [of _ "\<lparr>fd = int (next_fd w2), ftype = listen_type_udpancil\<rparr>"])
    apply (rule exI [of _ "\<lparr>fd = int (next_fd w), ftype = listen_type_udpancil\<rparr>"])
    using two none p6 p4 apply simp
    done
qed

theorem auto_mode_ancil_both_families_witness:
  "if_automatic auto_config \<noteq> 0 \<and> do_udp auto_config \<noteq> 0 \<and> do_ip4 auto_config \<noteq> 0
   \<and> do_ip6 auto_config \<noteq> 0 \<and> have_INET6 full_platform
   \<and> 0 \<le> port auto_config \<and> port auto_config \<le> 65535
   \<and> have_IPV6_RECVPKTINFO full_platform \<and> have_IP_RECVDSTADDR full_platform
   \<and> fst (listening_ports_open full_platform auto_config fresh_world) \<noteq> []
   \<and> (\<exists>p4 p6.
        filter (\<lambda>p. ftype p = listen_type_udpancil)
          (fst (listening_ports_open full_platform auto_config fresh_world)) = [p4, p6]
        \<and> bound_addr (snd (listening_ports_open full_platform auto_config fresh_world)) (fd p6)
            = Some \<lparr>sa_family = AF_INET6, sa_host = ''::0'',
                    sa_port = dec_int (port auto_config)\<rparr>
        \<and> sockopt_of (snd (listening_ports_open full_platform auto_config fresh_world)) (fd p6)
             IPV6_RECVPKTINFO = Some 1
        \<and> bound_addr (snd (listening_ports_open full_platform auto_config fresh_world)) (fd p4)
            = Some \<lparr>sa_family = AF_INET, sa_host = ''0.0.0.0'',
                    sa_port = dec_int (port auto_config)\<rparr>
        \<and> sockopt_of (snd (listening_ports_open full_platform auto_config fresh_world)) (fd p4)
             IP_RECVDSTADDR = Some 1)"
proof -
  let ?r = "listening_ports_open full_platform auto_config fresh_world"
  have c: "if_automatic auto_config \<noteq> 0" "do_udp auto_config \<noteq> 0" "do_ip4 auto_config \<noteq> 0"
    "do_ip6 auto_config \<noteq> 0" "have_INET6 full_platform"
    by (simp_all add: auto_config_def full_platform_def)
  have q: "0 \<le> port auto_config \<and> port auto_config \<le> 65535"
    "have_IPV6_RECVPKTINFO full_platform" "have_IP_RECVDSTADDR full_platform"
    by (simp_all add: auto_config_def full_platform_def)
  have e: "?r = (fst ?r, snd ?r)"
    by simp
  from auto_mode_ancil_both_families [OF c e auto_config_opens] q obtain p4 p6 where
    "filter (\<lambda>p. ftype p = listen_type_udpancil) (fst ?r) = [p4, p6]"
    "map_option sa_family (bound_addr (snd ?r) (fd p6)) = Some AF_INET6"
    "map_option sa_host (bound_addr (snd ?r) (fd p6)) = Some ''::0''"
    "map_option sa_port (bound_addr (snd ?r) (fd p6)) = Some (dec_int (port auto_config))"
    "sockopt_of (snd ?r) (fd p6) IPV6_RECVPKTINFO = Some 1"
    "map_option sa_family (bound_addr (snd ?r) (fd p4)) = Some AF_INET"
    "map_option sa_host (bound_addr (snd ?r) (fd p4)) = Some ''0.0.0.0''"
    "map_option sa_port (bound_addr (snd ?r) (fd p4)) = Some (dec_int (port auto_config))"
    "sockopt_of (snd ?r) (fd p4) IP_RECVDSTADDR = Some 1"
    by auto
  then have "filter (\<lambda>p. ftype p = listen_type_udpancil) (fst ?r) = [p4, p6]
     \<and> bound_addr (snd ?r) (fd p6)
         = Some \<lparr>sa_family = AF_INET6, sa_host = ''::0'', sa_port = dec_int (port auto_config)\<rparr>
     \<and> sockopt_of (snd ?r) (fd p6) IPV6_RECVPKTINFO = Some 1
     \<and> bound_addr (snd ?r) (fd p4)
         = Some \<lparr>sa_family = AF_INET, sa_host = ''0.0.0.0'', sa_port = dec_int (port auto_config)\<rparr>
     \<and> sockopt_of (snd ?r) (fd p4) IP_RECVDSTADDR = Some 1"
    by (auto simp: sockaddr.equality)
  with c q auto_config_opens show ?thesis
    by blast
qed

text \<open>
  C1, as the spec has it, fails: in automatic mode on port 53 with both families, with
  every call succeeding, the port set holds two ancillary-capture descriptors, and the
  one with descriptor 4 is an IPv4 socket bound to the IPv4 wildcard.
\<close>

theorem auto_mode_ipv4_ancil_counterexample:
  "fst (listening_ports_open full_platform auto_config fresh_world)
     = [\<lparr>fd = 4, ftype = listen_type_udpancil\<rparr>, \<lparr>fd = 3, ftype = listen_type_udpancil\<rparr>]
   \<and> map_option s_family (fds (snd (listening_ports_open full_platform auto_config fresh_world)) 4)
     = Some AF_INET
   \<and> bound_addr (snd (listening_ports_open full_platform auto_config fresh_world)) 4
     = Some \<lparr>sa_family = AF_INET, sa_host = ''0.0.0.0'', sa_port = ''53''\<rparr>
   \<and> bound_addr (snd (listening_ports_open full_platform auto_config fresh_world)) 3
     = Some \<lparr>sa_family = AF_INET6, sa_host = ''::0'', sa_port = ''53''\<rparr>"
  by (simp add: listening_ports_open_def auto_config_def full_platform_def fresh_world_def
      num_ifs_def dec_int_53 port_defs syscall_defs Let_def bound_addr_def)

section \<open>No TCP with an accept-queue depth of zero\<close>

lemma open_ifs_no_tcp:
  assumes "open_ifs plat ip4 ip6 u 0 hints pb names list w = (l, w')"
    and "\<forall>p \<in> set list. ftype p \<noteq> listen_type_tcp"
  shows "(\<forall>p \<in> set l. ftype p \<noteq> listen_type_tcp)
     \<and> stream_socket_calls w' = stream_socket_calls w"
  using assms
proof (induction names arbitrary: list w)
  case Nil
  then show ?case by simp
next
  case (Cons ifname rest)
  let ?h = "hints\<lparr>ai_family := if str_is_ip6 ifname then AF_INET6 else AF_INET\<rparr>"
  show ?case
  proof (cases "if str_is_ip6 ifname then ip6 = 0 else ip4 = 0")
    case True
    with Cons.prems have "open_ifs plat ip4 ip6 u 0 hints pb rest list w = (l, w')"
      by (simp split: if_splits)
    from Cons.IH [OF this Cons.prems(2)] show ?thesis .
  next
    case False
    obtain r list1 w1 where
      c: "ports_create_if plat ifname 0 u 0 ?h pb list w = (r, list1, w1)"
      by (metis prod_cases3)
    from ports_create_if_no_tcp [OF c] Cons.prems(2)
    have k: "stream_socket_calls w1 = stream_socket_calls w"
      "\<forall>p \<in> set list1. ftype p \<noteq> listen_type_tcp"
      by auto
    show ?thesis
    proof (cases "r = 0")
      case True
      with Cons.prems(1) False c k show ?thesis
        by (auto split: if_splits)
    next
      case r: False
      with Cons.prems(1) False c
      have "open_ifs plat ip4 ip6 u 0 hints pb rest list1 w1 = (l, w')"
        by (auto split: if_splits)
      from Cons.IH [OF this k(2)] k(1) show ?thesis
        by simp
    qed
  qed
qed

lemma opt_ports_create_if_no_tcp:
  assumes "(if c then ports_create_if plat ifname a u 0 hints pb list w else (1, list, w))
             = (r, list', w')"
    and "\<forall>p \<in> set list. ftype p \<noteq> listen_type_tcp"
  shows "stream_socket_calls w' = stream_socket_calls w
     \<and> (\<forall>p \<in> set list'. ftype p \<noteq> listen_type_tcp)"
proof (cases c)
  case True
  with assms(1) have "ports_create_if plat ifname a u 0 hints pb list w = (r, list', w')"
    by simp
  from ports_create_if_no_tcp [OF this] assms(2) show ?thesis
    by auto
next
  case False
  with assms show ?thesis
    by simp
qed

lemma open_defaults_no_tcp:
  assumes "open_defaults plat ip4 ip6 a u 0 hints pb w = (l, w')"
  shows "(\<forall>p \<in> set l. ftype p \<noteq> listen_type_tcp)
     \<and> stream_socket_calls w' = stream_socket_calls w"
proof -
  obtain r6 list6 w2 where
    six: "(if ip6 \<noteq> 0
           then ports_create_if plat (if a \<noteq> 0 then ''::0'' else ''::1'') a u 0
                  (hints\<lparr>ai_family := AF_INET6\<rparr>) pb [] w
           else (1, [], w)) = (r6, list6, w2)"
    by (metis prod_cases3)
  obtain r4 list4 w3 where
    four: "(if ip4 \<noteq> 0
            then ports_create_if plat (if a \<noteq> 0 then ''0.0.0.0'' else ''127.0.0.1'') a u 0
                   (hints\<lparr>ai_family := AF_INET\<rparr>) pb list6 w2
            else (1, list6, w2)) = (r4, list4, w3)"
    by (metis prod_cases3)
  from opt_ports_create_if_no_tcp [OF six]
  have k6: "stream_socket_calls w2 = stream_socket_calls w"
    "\<forall>p \<in> set list6. ftype p \<noteq> listen_type_tcp"
    by simp_all
  from opt_ports_create_if_no_tcp [OF four k6(2)] k6(1)
  have k4: "stream_socket_calls w3 = stream_socket_calls w"
    "\<forall>p \<in> set list4. ftype p \<noteq> listen_type_tcp"
    by simp_all
  have "open_defaults plat ip4 ip6 a u 0 hints pb w =
      (if r6 = 0 then ([], listening_ports_free list6 w2)
       else if r4 = 0 then ([], listening_ports_free list4 w3) else (list4, w3))"
    by (simp only: open_defaults_def Let_def six four prod.case)
  with assms k6 k4 show ?thesis
    by (auto split: if_splits)
qed

text \<open>
  C6. With a TCP accept-queue depth of zero the port set that is built holds no
  TCP-accept descriptor and the build makes no socket(2) call for a stream socket,
  whatever the \<open>do_tcp\<close> flag is: replacing the flag by any value \<open>d\<close> gives the same
  result and the same world.
\<close>

theorem no_tcp_without_accept_queue:
  assumes "incoming_num_tcp cfg = 0"
    and "listening_ports_open plat cfg w = (l, w')"
  shows "(\<forall>p \<in> set l. ftype p \<noteq> listen_type_tcp)
     \<and> stream_socket_calls w' = stream_socket_calls w
     \<and> listening_ports_open plat (cfg\<lparr>do_tcp := d\<rparr>) w = (l, w')"
proof -
  have "listening_ports_open plat (cfg\<lparr>do_tcp := d\<rparr>) w = listening_ports_open plat cfg w"
    using assms(1) by (simp add: listening_ports_open_def num_ifs_def Let_def)
  with assms(2) have same: "listening_ports_open plat (cfg\<lparr>do_tcp := d\<rparr>) w = (l, w')"
    by simp
  from assms have "l = [] \<and> w' = w
    \<or> (\<exists>ip4 ip6 a u h pb w1. stream_socket_calls w1 = stream_socket_calls w
          \<and> (open_defaults plat ip4 ip6 a u 0 h pb w1 = (l, w')
              \<or> open_ifs plat ip4 ip6 u 0 h pb (ifs cfg) [] w1 = (l, w')))"
    by (simp add: listening_ports_open_def Let_def split: if_splits) (metis log_warn_calls)+
  then have "(\<forall>p \<in> set l. ftype p \<noteq> listen_type_tcp)
     \<and> stream_socket_calls w' = stream_socket_calls w"
    using open_defaults_no_tcp open_ifs_no_tcp [where list = "[]"]
    by (elim disjE exE conjE) simp_all
  with same show ?thesis
    by simp
qed

theorem no_tcp_without_accept_queue_witness:
  "incoming_num_tcp auto_config = 0 \<and> do_tcp auto_config = 1
   \<and> fst (listening_ports_open full_platform auto_config fresh_world) \<noteq> []
   \<and> listen_type_tcp
       \<notin> ftype ` set (fst (listening_ports_open full_platform auto_config fresh_world))
   \<and> stream_socket_calls (snd (listening_ports_open full_platform auto_config fresh_world))
       = stream_socket_calls fresh_world"
proof -
  let ?r = "listening_ports_open full_platform auto_config fresh_world"
  have c: "incoming_num_tcp auto_config = 0" and t: "do_tcp auto_config = 1"
    by (simp_all add: auto_config_def)
  have e: "?r = (fst ?r, snd ?r)"
    by simp
  from no_tcp_without_accept_queue [OF c e, of 0]
  have a: "\<forall>p \<in> set (fst ?r). ftype p \<noteq> listen_type_tcp"
    and b: "stream_socket_calls (snd ?r) = stream_socket_calls fresh_world"
    by blast+
  from a have "listen_type_tcp \<notin> ftype ` set (fst ?r)"
    by (metis imageE)
  with b c t auto_config_opens show ?thesis
    by simp
qed

section \<open>A failed bind leaves a descriptor open\<close>

text \<open>
  C2 fails on the code. Three UDP sockets are requested and the bind of the second one
  fails: the build returns the empty list, descriptor 3 (the first socket) is closed and
  no list node stays allocated, but descriptor 4, which was not open before the call, is
  still open after it: the socket the factory created for the second interface, never
  bound and never closed.
\<close>

theorem second_bind_failure_leaks_descriptor:
  "fst (listening_ports_open full_platform three_ifs_config second_bind_fails) = []
   \<and> fds second_bind_fails 4 = None
   \<and> fds (snd (listening_ports_open full_platform three_ifs_config second_bind_fails)) 4
       = Some (new_sock AF_INET SOCK_DGRAM)
   \<and> fds (snd (listening_ports_open full_platform three_ifs_config second_bind_fails)) 3 = None
   \<and> mallocs (snd (listening_ports_open full_platform three_ifs_config second_bind_fails))
       = mallocs second_bind_fails"
  by (simp add: listening_ports_open_def three_ifs_config_def full_platform_def fresh_world_def
      second_bind_fails_def str_is_ip6_def num_ifs_def dec_int_53 port_defs syscall_defs Let_def)

text \<open>
  The run above takes the loop over the configured interfaces (automatic mode is off and
  three interfaces are configured), and its leaked descriptor is one the call itself
  opened.
\<close>

theorem second_bind_failure_leaks_descriptor_witness:
  "if_automatic three_ifs_config = 0 \<and> num_ifs three_ifs_config = 3
   \<and> fds second_bind_fails 4 = None
   \<and> fds (snd (listening_ports_open full_platform three_ifs_config second_bind_fails)) 4
       \<noteq> None"
  using second_bind_failure_leaks_descriptor
  by (simp add: three_ifs_config_def num_ifs_def)

end
